theory Spec2Isabelle
  imports
    Complex_Main
    "HOL-Library.FSet"
    "HOL-Library.Multiset"
    "HOL-Library.Char_ord"
    "HOL-Library.List_Lexorder"
    "HOL-Library.Product_Lexorder"
begin

section \<open>Data model\<close>

text \<open>
  The pipeline passes tables (polars data frames) from stage to stage. A table is a list
  of rows, in row order. Identifiers are strings, ordered bytewise (the order polars sorts
  them in; here the lexicographic order on \<open>char list\<close>). A calendar date is the number
  of days since the epoch, which is how a polars \<open>Date\<close> column stores it. Float columns
  are modelled by real numbers: rounding is not part of the model.

  A row of \<open>interactions.parquet\<close>, \<open>train_interactions.parquet\<close> and
  \<open>test_interactions.parquet\<close>. The column \<open>last_seen\<close> holds no null:
  \<open>build_interactions\<close> drops the events without a date before it takes the maximum.
\<close>

record interaction =
  customer_id :: string
  article_id :: string
  freq :: nat
  last_seen :: int
  implicit_score :: real

text \<open>A row of \<open>transactions_train.csv\<close> after the casts; any of the three cells may be null.\<close>

record transaction =
  t_dat :: "int option"
  tx_customer_id :: "string option"
  tx_article_id :: "string option"

text \<open>
  An edge: a row of the frame \<open>item | neighbor | cnt\<close> that holds no null.
\<close>

record neighbor_edge =
  item :: string
  neighbor :: string
  cnt :: nat

text \<open>
  The dataclass \<open>MetricResult\<close>. Its fields \<open>recall_at_k\<close> and \<open>map_at_k\<close> carry
  the prefix \<open>mr_\<close> here, since \<open>recall_at_k\<close> is also the name of a function.
\<close>

record metric_result =
  mr_model :: string
  mr_recall_at_k :: real
  mr_map_at_k :: real
  mr_users :: nat

section \<open>The data-frame operations the code uses\<close>

text \<open>
  polars leaves open the order of the groups of \<open>group_by\<close> and of \<open>unique\<close>, and the order
  in which \<open>sort\<close> leaves rows of equal key. The operations below fix the order of
  arrival: groups and unique values in order of first appearance, rows of one group in frame
  order (which polars guarantees), and a stable sort. No sort key other than the ones the
  code names is ever applied. Where a result depends on more than the order of its rows,
  the choice of the engine is an argument of the model (\<open>unique_users\<close> in
  \<open>evaluate_recs\<close>), or the theorem is stated for the inputs on which every choice
  gives the same result.
\<close>

definition unique_rows :: "'a list \<Rightarrow> 'a list" where
  "unique_rows xs = rev (remdups (rev xs))"

definition group_rows :: "('a \<Rightarrow> 'k) \<Rightarrow> 'a list \<Rightarrow> ('k \<times> 'a list) list" where
  "group_rows key rows =
     map (\<lambda>g. (g, filter (\<lambda>r. key r = g) rows)) (unique_rows (map key rows))"

text \<open>
  \<open>group_by(key).head(n)\<close>: the first \<open>n\<close> rows of every group. polars takes the head
  of every column as a list per group and explodes the lists, and an empty list explodes
  to a null: a group of which no row is taken (every group, when \<open>n = 0\<close>) leaves one row
  that holds the key and a null in every other column. A row of the result is the key with
  the row taken, or the key with \<open>None\<close> for such a null row.
\<close>

definition group_head :: "('a \<Rightarrow> 'k) \<Rightarrow> nat \<Rightarrow> 'a list \<Rightarrow> ('k \<times> 'a option) list" where
  "group_head key n rows =
     concat (map (\<lambda>(g, rs). case take n rs of
                              [] \<Rightarrow> [(g, None)]
                            | r # kept \<Rightarrow> map (\<lambda>r. (g, Some r)) (r # kept))
               (group_rows key rows))"

text \<open>\<open>group_by(key).agg(pl.len())\<close>: one row per group, with the number of its rows.\<close>

definition group_len :: "('a \<Rightarrow> 'k) \<Rightarrow> 'a list \<Rightarrow> ('k \<times> nat) list" where
  "group_len key rows = map (\<lambda>(g, rs). (g, length rs)) (group_rows key rows)"

text \<open>\<open>left.join(right, on=..., how="inner")\<close>: every left row with every right row of its key.\<close>

definition inner_join :: "('a \<Rightarrow> 'k) \<Rightarrow> ('b \<Rightarrow> 'k) \<Rightarrow> 'a list \<Rightarrow> 'b list \<Rightarrow> ('a \<times> 'b) list" where
  "inner_join kl kr left right =
     concat (map (\<lambda>l. map (\<lambda>r. (l, r)) (filter (\<lambda>r. kr r = kl l) right)) left)"

text \<open>\<open>how="left"\<close>: a left row without a partner is kept, with a null on the right.\<close>

definition left_join :: "('a \<Rightarrow> 'k) \<Rightarrow> ('b \<Rightarrow> 'k) \<Rightarrow> 'a list \<Rightarrow> 'b list \<Rightarrow> ('a \<times> 'b option) list" where
  "left_join kl kr left right =
     concat (map (\<lambda>l. case filter (\<lambda>r. kr r = kl l) right of
                         [] \<Rightarrow> [(l, None)]
                       | ms \<Rightarrow> map (\<lambda>r. (l, Some r)) ms) left)"

text \<open>
  \<open>train.group_by("customer_id").agg(pl.col("article_id").unique().alias("seen"))\<close>,
  and \<open>users.join(user_seen, on="customer_id", how="left")\<close> followed by
  \<open>fill_null(pl.lit([]))\<close>; both recommenders build these two frames the same way.
\<close>

definition user_seen :: "interaction list \<Rightarrow> (string \<times> string list) list" where
  "user_seen train =
     map (\<lambda>(u, rs). (u, unique_rows (map article_id rs))) (group_rows customer_id train)"

definition base_frame :: "string list \<Rightarrow> (string \<times> string list) list \<Rightarrow> (string \<times> string list) list" where
  "base_frame users seen_df =
     map (\<lambda>(u, m). (u, case m of None \<Rightarrow> [] | Some row \<Rightarrow> snd row))
       (left_join (\<lambda>u. u) fst users seen_df)"

section \<open>Evaluation metrics (\<open>src/evaluation/metrics.py\<close>)\<close>

text \<open>Python's slice \<open>xs[:k]\<close>; a negative \<open>k\<close> drops the last \<open>-k\<close> elements.\<close>

definition py_prefix :: "'a list \<Rightarrow> int \<Rightarrow> 'a list" where
  "py_prefix xs k = (if 0 \<le> k then take (nat k) xs else take (length xs - nat (- k)) xs)"

definition recall_at_k :: "string list \<Rightarrow> string fset \<Rightarrow> int \<Rightarrow> real" where
  "recall_at_k recs truth k =
     (if truth = {||} then 0
      else let pred = py_prefix recs k;
               hit = length (filter (\<lambda>a. a |\<in>| truth) pred)
           in real hit / real (fcard truth))"

text \<open>
  The loop of \<open>ap_at_k\<close> over \<open>enumerate(pred, start=1)\<close>: the state is the position
  \<open>i\<close>, the hit count \<open>hits\<close> and the running sum \<open>s\<close>.
\<close>

fun ap_loop :: "string fset \<Rightarrow> string list \<Rightarrow> nat \<Rightarrow> nat \<Rightarrow> real \<Rightarrow> real" where
  "ap_loop truth [] i hits s = s"
| "ap_loop truth (a # pred) i hits s =
     (if a |\<in>| truth
      then ap_loop truth pred (i + 1) (hits + 1) (s + real (hits + 1) / real i)
      else ap_loop truth pred (i + 1) hits s)"

definition ap_at_k :: "string list \<Rightarrow> string fset \<Rightarrow> int \<Rightarrow> real" where
  "ap_at_k recs truth k =
     (let pred = py_prefix recs k
      in if truth = {||} then 0
         else let s = ap_loop truth pred 1 0 0;
                  denom = min (int (fcard truth)) k
              in if denom > 0 then s / real_of_int denom else 0)"

text \<open>
  \<open>evaluate_recs\<close>, with the two parquet files given as the frames read from them. The
  \<open>recs\<close> cell of a row may be null (\<open>row["recs"] or []\<close>). \<open>max_users\<close> is
  \<open>None\<close> or a row count.

  \<open>users = recs_df.select("customer_id").unique()\<close> is cut by \<open>head(max_users)\<close>, and
  the order of the rows of \<open>unique()\<close> is the engine's: which users a cap keeps is not
  fixed by the data. The frame \<open>unique()\<close> returns is the argument \<open>unique_users\<close>;
  \<open>unique_of xs us\<close> says that \<open>us\<close> is such a frame for the column \<open>xs\<close>: the
  distinct values of \<open>xs\<close>, each once, in any order.
\<close>

definition unique_of :: "'a list \<Rightarrow> 'a list \<Rightarrow> bool" where
  "unique_of xs us \<longleftrightarrow> distinct us \<and> set us = set xs"

definition evaluate_recs ::
  "string list \<Rightarrow> string \<Rightarrow> (string \<times> string list option) list \<Rightarrow> interaction list \<Rightarrow> int
     \<Rightarrow> nat option \<Rightarrow> metric_result" where
  "evaluate_recs unique_users model_name recs_df test k max_users =
     (let users = (case max_users of None \<Rightarrow> unique_users | Some m \<Rightarrow> take m unique_users);
          truth_df = map (\<lambda>(u, rs). (u, unique_rows (map article_id rs)))
                       (group_rows customer_id
                          (map fst (inner_join customer_id (\<lambda>u. u) test users)));
          eval_df = inner_join fst fst recs_df truth_df;
          rows = map (\<lambda>((u, recs), (u', truth)).
                        (case recs of None \<Rightarrow> [] | Some l \<Rightarrow> l, fset_of_list truth)) eval_df;
          recalls = map (\<lambda>(recs, truth). recall_at_k recs truth k) rows;
          aps = map (\<lambda>(recs, truth). ap_at_k recs truth k) rows;
          recall_mean = (if recalls \<noteq> [] then sum_list recalls / real (length recalls) else 0);
          map_mean = (if aps \<noteq> [] then sum_list aps / real (length aps) else 0)
      in \<lparr>mr_model = model_name, mr_recall_at_k = recall_mean, mr_map_at_k = map_mean,
          mr_users = length recalls\<rparr>)"

section \<open>Time split (\<open>src/evaluation/split.py\<close>)\<close>

text \<open>
  \<open>make_time_split\<close> returns the two frames it writes, \<open>(train, test)\<close>. The cutoff is
  the date its string argument is cast to.
\<close>

definition make_time_split :: "interaction list \<Rightarrow> int \<Rightarrow> interaction list \<times> interaction list" where
  "make_time_split lf cutoff_date =
     (let train_lf = filter (\<lambda>r. last_seen r < cutoff_date) lf;
          test_lf = filter (\<lambda>r. last_seen r \<ge> cutoff_date) lf
      in (train_lf, test_lf))"

section \<open>Popularity baseline (\<open>src/baselines/popularity.py\<close>)\<close>

text \<open>
  The loop of the closure \<open>recs_for_seen\<close>; \<open>top_items\<close> and \<open>k\<close>, which the closure
  captures, are parameters. The test \<open>len(out) == k\<close> runs after every item, appended or
  not.
\<close>

fun recs_for_seen_loop :: "int \<Rightarrow> string list \<Rightarrow> string list \<Rightarrow> string list \<Rightarrow> string list" where
  "recs_for_seen_loop k seen [] out = out"
| "recs_for_seen_loop k seen (a # top_items) out =
     (let out' = (if a \<notin> set seen then out @ [a] else out)
      in if int (length out') = k then out' else recs_for_seen_loop k seen top_items out')"

definition recs_for_seen :: "string list \<Rightarrow> int \<Rightarrow> string list \<Rightarrow> string list" where
  "recs_for_seen top_items k seen = recs_for_seen_loop k seen top_items []"

definition top_items_of :: "interaction list \<Rightarrow> string list" where
  "top_items_of train =
     take 5000 (map fst (sort_key (\<lambda>(a, c). - int c) (group_len article_id train)))"

definition build_popularity_recs ::
  "interaction list \<Rightarrow> int \<Rightarrow> nat option \<Rightarrow> (string \<times> string list) list" where
  "build_popularity_recs train k max_users =
     (let top_items = top_items_of train;
          users_lf = unique_rows (map customer_id train);
          users = (case max_users of None \<Rightarrow> users_lf | Some m \<Rightarrow> take m users_lf);
          base = base_frame users (user_seen train)
      in map (\<lambda>(u, seen). (u, recs_for_seen top_items k seen)) base)"

section \<open>Co-occurrence baseline (\<open>src/baselines/cooccurrence.py\<close>)\<close>

text \<open>
  The seed rows, before the projection on \<open>customer_id, article_id\<close>:
  \<open>train.sort(["customer_id", "implicit_score"], descending=[False, True])
  .group_by("customer_id").head(seed_items_per_user)\<close>.
\<close>

definition seed_rows :: "interaction list \<Rightarrow> nat \<Rightarrow> (string \<times> interaction option) list" where
  "seed_rows train seed_items_per_user =
     group_head customer_id seed_items_per_user
       (sort_key (\<lambda>r. (customer_id r, - implicit_score r)) train)"

text \<open>
  The projection \<open>select(["customer_id", "article_id"])\<close>; the \<open>article_id\<close> of a null
  row is null.
\<close>

definition seeds_of :: "interaction list \<Rightarrow> nat \<Rightarrow> (string \<times> string option) list" where
  "seeds_of train seed_items_per_user =
     map (\<lambda>(u, r). (u, map_option article_id r)) (seed_rows train seed_items_per_user)"

text \<open>
  The frame \<open>counts\<close>: the pairs of the self-join, counted and sorted.
  \<open>filter(pl.col("item") != pl.col("neighbor"))\<close> keeps a row when the comparison is
  true; with a null on either side the comparison is null and the row is dropped.
\<close>

definition pair_counts :: "(string \<times> string option) list \<Rightarrow> ((string \<times> string) \<times> nat) list" where
  "pair_counts seeds =
     (let pairs = concat (map (\<lambda>((u, i), (u', n)).
                                 case i of
                                   None \<Rightarrow> []
                                 | Some a \<Rightarrow> (case n of
                                               None \<Rightarrow> []
                                             | Some b \<Rightarrow> if a \<noteq> b then [(a, b)] else []))
                    (inner_join fst fst seeds seeds))
      in sort_key (\<lambda>((i, n), c). (i, - int c)) (group_len (\<lambda>p. p) pairs))"

text \<open>
  \<open>build_item_neighbors\<close>. A row of the frame returned is the item with its edge, or,
  for a null row of \<open>head\<close>, the item with nulls for \<open>neighbor\<close> and \<open>cnt\<close>.
\<close>

definition build_item_neighbors ::
  "interaction list \<Rightarrow> nat \<Rightarrow> nat \<Rightarrow> (string \<times> neighbor_edge option) list" where
  "build_item_neighbors train seed_items_per_user neighbors_per_item =
     (let seeds = seeds_of train seed_items_per_user;
          counts = pair_counts seeds;
          top_neighbors = group_head (\<lambda>((i, n), c). i) neighbors_per_item counts
      in map (\<lambda>(g, r). (g, map_option (\<lambda>((i, n), c). \<lparr>item = i, neighbor = n, cnt = c\<rparr>) r))
           top_neighbors)"

text \<open>
  \<open>group_by(["customer_id", "neighbor"]).agg(pl.col("cnt").sum().alias("score"))\<close>
  on the join of the seeds with the neighbour frame, then the sort on
  \<open>customer_id\<close> ascending and \<open>score\<close> descending. The join is on \<open>item\<close>, and a
  null seed item joins with no row. The neighbour frame \<open>build_cooccurrence_recs\<close> reads
  is a frame of edges, \<open>item | neighbor | cnt\<close> without nulls, which is what
  \<open>build_item_neighbors\<close> returns for \<open>neighbors_per_item \<ge> 1\<close>.
\<close>

definition scored_frame ::
  "(string \<times> string option) list \<Rightarrow> neighbor_edge list \<Rightarrow> ((string \<times> string) \<times> nat) list" where
  "scored_frame seeds neigh =
     (let joined = inner_join snd (\<lambda>e. Some (item e)) seeds neigh;
          summed = map (\<lambda>(g, rs). (g, sum_list (map (\<lambda>(sd, e). cnt e) rs)))
                     (group_rows (\<lambda>(sd, e). (fst sd, neighbor e)) joined)
      in sort_key (\<lambda>((u, n), score). (u, - int score)) summed)"

text \<open>
  \<open>build_cooccurrence_recs\<close>. The user subset is
  \<open>users_lf.limit(max_users) if max_users else users_lf\<close>: \<open>None\<close> and \<open>0\<close> both
  keep every user.
\<close>

definition build_cooccurrence_recs ::
  "interaction list \<Rightarrow> neighbor_edge list \<Rightarrow> nat \<Rightarrow> nat \<Rightarrow> nat option
     \<Rightarrow> (string \<times> string list) list" where
  "build_cooccurrence_recs train neighbors_df k seed_items_per_user max_users =
     (let users_lf = unique_rows (map customer_id train);
          users = (case max_users of
                     None \<Rightarrow> users_lf
                   | Some m \<Rightarrow> if m = 0 then users_lf else take m users_lf);
          seeds = seeds_of train seed_items_per_user;
          scored = scored_frame seeds neighbors_df;
          base = base_frame users (user_seen train);
          scored2 = inner_join (\<lambda>((u, n), score). u) fst scored base;
          filtered = filter (\<lambda>(((u, n), score), (u', seen)). n \<notin> set seen) scored2;
          recs = map (\<lambda>(u, rs). (u, take k (map (\<lambda>(((u, n), score), b). n) rs)))
                   (group_rows (\<lambda>(((u, n), score), b). u) filtered)
      in recs)"

section \<open>Implicit score (\<open>src/features/build_interactions.py\<close>)\<close>

text \<open>
  \<open>main\<close> reads the clock: \<open>pl.lit(date.today()) - pl.col("last_seen")\<close>. The value
  \<open>date.today()\<close> returns is the first argument of the model, \<open>today\<close>; the second is
  the frame read from the CSV file. The result is the frame written to
  \<open>interactions.parquet\<close>.
\<close>

definition half_life_days :: real where
  "half_life_days = 30"

definition score_row :: "int \<Rightarrow> (string \<times> string) \<times> nat \<times> int \<Rightarrow> interaction" where
  "score_row today g =
     (case g of ((c, a), f, ls) \<Rightarrow>
        let freq_score = ln (1 + real f);
            days_since_last = real_of_int (today - ls);
            recency_score = exp (- days_since_last / half_life_days)
        in \<lparr>customer_id = c, article_id = a, freq = f, last_seen = ls,
            implicit_score = freq_score * recency_score\<rparr>)"

definition aggregate_events :: "transaction list \<Rightarrow> ((string \<times> string) \<times> nat \<times> int) list" where
  "aggregate_events txs =
     (let kept = filter (\<lambda>t. tx_customer_id t \<noteq> None \<and> tx_article_id t \<noteq> None \<and> t_dat t \<noteq> None) txs
      in map (\<lambda>(g, rs). (g, length rs, Max (set (map (\<lambda>t. the (t_dat t)) rs))))
           (group_rows (\<lambda>t. (the (tx_customer_id t), the (tx_article_id t))) kept))"

definition build_interactions :: "int \<Rightarrow> transaction list \<Rightarrow> interaction list" where
  "build_interactions today txs =
     sort_key (\<lambda>r. (customer_id r, - implicit_score r)) (map (score_row today) (aggregate_events txs))"

section \<open>The metric formulas as the specification words them\<close>

text \<open>
  The number of hits among the first \<open>i\<close> predictions, and AP@K as the specification
  describes it: the positions \<open>i = 1..K\<close> that exist in the list and hold an item of the
  truth set contribute \<open>hits_upto i / i\<close>; the sum is divided by \<open>min(|truth|, K)\<close>.
\<close>

definition hits_upto :: "string list \<Rightarrow> string fset \<Rightarrow> nat \<Rightarrow> nat" where
  "hits_upto recs truth i = length (filter (\<lambda>a. a |\<in>| truth) (take i recs))"

definition spec_ap_sum :: "string list \<Rightarrow> string fset \<Rightarrow> int \<Rightarrow> real" where
  "spec_ap_sum recs truth k =
     (\<Sum>i\<leftarrow>[1..<Suc (min (nat k) (length recs))].
        if recs ! (i - 1) |\<in>| truth then real (hits_upto recs truth i) / real i else 0)"

definition spec_ap_at_k :: "string list \<Rightarrow> string fset \<Rightarrow> int \<Rightarrow> real" where
  "spec_ap_at_k recs truth k =
     (if truth = {||} then 0
      else spec_ap_sum recs truth k / real_of_int (min (int (fcard truth)) k))"

section \<open>The rows the evaluator scores\<close>

text \<open>
  Names for what \<open>evaluate_recs\<close> is shown to compute: the users the cap keeps of the
  frame \<open>unique_users\<close>, the
  truth set of a user (the article ids of the user's test rows), the list in the \<open>recs\<close>
  cell of a row, and the rows of the recommendation frame whose user is within the cap and
  has a test row.
\<close>

definition capped_users :: "string list \<Rightarrow> nat option \<Rightarrow> string list" where
  "capped_users unique_users max_users =
     (case max_users of
        None \<Rightarrow> unique_users
      | Some m \<Rightarrow> take m unique_users)"

definition truth_of :: "interaction list \<Rightarrow> string \<Rightarrow> string fset" where
  "truth_of test u = fset_of_list (map article_id (filter (\<lambda>r. customer_id r = u) test))"

definition recs_list :: "string \<times> string list option \<Rightarrow> string list" where
  "recs_list row = (case snd row of None \<Rightarrow> [] | Some l \<Rightarrow> l)"

definition evaluated_rows ::
  "string list \<Rightarrow> (string \<times> string list option) list \<Rightarrow> interaction list \<Rightarrow> nat option
     \<Rightarrow> (string \<times> string list option) list" where
  "evaluated_rows unique_users recs_df test max_users =
     filter (\<lambda>row. fst row \<in> set (capped_users unique_users max_users)
                   \<and> fst row \<in> customer_id ` set test) recs_df"

section \<open>Top-N selections\<close>

text \<open>
  \<open>top_by score n sel rows\<close>: the list \<open>sel\<close> is a selection of the \<open>n\<close> rows of highest
  score among \<open>rows\<close>, in descending order of score. It takes \<open>min n (length rows)\<close> of
  the rows, it is sorted by score descending, and no row left out has a higher score than a
  row taken. Nothing is said about rows of equal score.

  \<open>item_popularity\<close> is the number of train rows of an article, the count the popularity
  baseline sorts by.
\<close>

definition top_by :: "('a \<Rightarrow> 'k::linorder) \<Rightarrow> nat \<Rightarrow> 'a list \<Rightarrow> 'a list \<Rightarrow> bool" where
  "top_by score n sel rows \<longleftrightarrow>
     sorted_wrt (\<lambda>a b. score b \<le> score a) sel
     \<and> length sel = min n (length rows)
     \<and> mset sel \<subseteq># mset rows
     \<and> (\<forall>x \<in># mset rows - mset sel. \<forall>y \<in> set sel. score x \<le> score y)"

definition item_popularity :: "interaction list \<Rightarrow> string \<Rightarrow> nat" where
  "item_popularity train a = length (filter (\<lambda>r. article_id r = a) train)"

text \<open>
  The rows \<open>group_head\<close> takes when \<open>n \<ge> 1\<close>, without their keys; the rows of a
  result of \<open>group_head\<close> that are not null rows; and the rows of one key among them.
\<close>

definition group_take :: "('a \<Rightarrow> 'k) \<Rightarrow> nat \<Rightarrow> 'a list \<Rightarrow> 'a list" where
  "group_take key n rows = concat (map (\<lambda>(g, rs). take n rs) (group_rows key rows))"

definition kept_rows :: "('k \<times> 'a option) list \<Rightarrow> 'a list" where
  "kept_rows rows = concat (map (\<lambda>(g, r). case r of None \<Rightarrow> [] | Some x \<Rightarrow> [x]) rows)"

definition rows_of :: "'k \<Rightarrow> ('k \<times> 'a option) list \<Rightarrow> 'a list" where
  "rows_of g rows = kept_rows (filter (\<lambda>row. fst row = g) rows)"

section \<open>The users the co-occurrence recommender serves\<close>

text \<open>
  \<open>cap_keeps_all\<close>: the cap of \<open>build_cooccurrence_recs\<close> leaves out no user of the
  train frame (no cap, the cap \<open>0\<close> that the code reads as no cap, or a cap of at least
  the number of users); then the users served do not depend on the order of \<open>unique()\<close>.
  \<open>has_candidate\<close>: one of the seed items of the user has an edge to an item that is not
  among the user's train rows.
\<close>

definition cap_keeps_all :: "interaction list \<Rightarrow> nat option \<Rightarrow> bool" where
  "cap_keeps_all train max_users =
     (case max_users of
        None \<Rightarrow> True
      | Some m \<Rightarrow> m = 0 \<or> length (unique_rows (map customer_id train)) \<le> m)"

definition has_candidate :: "interaction list \<Rightarrow> neighbor_edge list \<Rightarrow> nat \<Rightarrow> string \<Rightarrow> bool" where
  "has_candidate train neighbors_df seed_items_per_user u =
     (\<exists>e \<in> set neighbors_df.
        (u, Some (item e)) \<in> set (seeds_of train seed_items_per_user)
        \<and> neighbor e \<notin> set (map article_id (filter (\<lambda>r. customer_id r = u) train)))"

section \<open>Lemmas on the data-frame operations\<close>

lemma set_unique_rows [simp]: "set (unique_rows xs) = set xs"
  by (simp add: unique_rows_def)

lemma distinct_unique_rows [simp]: "distinct (unique_rows xs)"
  by (simp add: unique_rows_def)

lemma fset_of_list_unique_rows: "fset_of_list (unique_rows xs) = fset_of_list xs"
  by (simp add: fset_of_list.rep_eq fset_inject [symmetric])

lemma group_rows_keys: "map fst (group_rows key rows) = unique_rows (map key rows)"
  by (simp add: group_rows_def o_def)

lemma filter_keyed:
  "distinct gs \<Longrightarrow>
     filter (\<lambda>r. fst r = k) (map (\<lambda>g. (g, f g)) gs) = (if k \<in> set gs then [(k, f k)] else [])"
  by (induction gs) auto

lemma inner_join_keyed:
  "distinct gs \<Longrightarrow>
     inner_join fst fst left (map (\<lambda>g. (g, f g)) gs) =
       map (\<lambda>l. (l, (fst l, f (fst l)))) (filter (\<lambda>l. fst l \<in> set gs) left)"
  by (induction left) (simp_all add: inner_join_def filter_keyed)

lemma filter_eq_distinct:
  "distinct us \<Longrightarrow> filter (\<lambda>u. u = k) us = (if k \<in> set us then [k] else [])"
  by (induction us) auto

lemma inner_join_users:
  "distinct us \<Longrightarrow>
     map fst (inner_join key (\<lambda>u. u) rows us) = filter (\<lambda>r. key r \<in> set us) rows"
  by (induction rows) (simp_all add: inner_join_def filter_eq_distinct)

lemma distinct_capped_users: "distinct us \<Longrightarrow> distinct (capped_users us max_users)"
  by (simp add: capped_users_def split: option.split)

lemma evaluate_recs_rows:
  assumes "distinct us"
  shows "evaluate_recs us model_name recs_df test k max_users =
     (let rows = evaluated_rows us recs_df test max_users;
          recalls = map (\<lambda>row. recall_at_k (recs_list row) (truth_of test (fst row)) k) rows;
          aps = map (\<lambda>row. ap_at_k (recs_list row) (truth_of test (fst row)) k) rows
      in \<lparr>mr_model = model_name,
          mr_recall_at_k = (if rows \<noteq> [] then sum_list recalls / real (length rows) else 0),
          mr_map_at_k = (if rows \<noteq> [] then sum_list aps / real (length rows) else 0),
          mr_users = length rows\<rparr>)"
proof -
  define users where "users = capped_users us max_users"
  define joined where "joined = filter (\<lambda>r. customer_id r \<in> set users) test"
  define gs where "gs = unique_rows (map customer_id joined)"
  define f where "f = (\<lambda>g. unique_rows (map article_id (filter (\<lambda>r. customer_id r = g) joined)))"
  have du: "distinct users" by (simp add: users_def distinct_capped_users [OF assms])
  have j: "map fst (inner_join customer_id (\<lambda>u. u) test users) = joined"
    by (simp add: joined_def inner_join_users [OF du])
  have truth_df: "map (\<lambda>(u, rs). (u, unique_rows (map article_id rs))) (group_rows customer_id joined)
                   = map (\<lambda>g. (g, f g)) gs"
    by (simp add: group_rows_def gs_def f_def o_def)
  have dg: "distinct gs" by (simp add: gs_def)
  have sg: "set gs = {u. u \<in> set users \<and> u \<in> customer_id ` set test}"
    by (auto simp: gs_def joined_def)
  have ev: "filter (\<lambda>l. fst l \<in> set gs) recs_df = evaluated_rows us recs_df test max_users"
    by (simp add: sg evaluated_rows_def users_def)
  have tr: "fset_of_list (f (fst row)) = truth_of test (fst row)"
    if "row \<in> set (evaluated_rows us recs_df test max_users)" for row
  proof -
    from that have "fst row \<in> set users"
      by (simp add: evaluated_rows_def users_def)
    then have "filter (\<lambda>r. customer_id r = fst row) joined = filter (\<lambda>r. customer_id r = fst row) test"
      by (auto simp: joined_def intro: filter_cong)
    then show ?thesis
      by (simp add: f_def truth_of_def fset_of_list_unique_rows)
  qed
  have rows: "map (\<lambda>((u, recs), (u', truth)).
                        (case recs of None \<Rightarrow> [] | Some l \<Rightarrow> l, fset_of_list truth))
                (inner_join fst fst recs_df (map (\<lambda>g. (g, f g)) gs))
              = map (\<lambda>row. (recs_list row, truth_of test (fst row)))
                  (evaluated_rows us recs_df test max_users)"
  proof -
    let ?E = "evaluated_rows us recs_df test max_users"
    have "map (\<lambda>((u, recs), (u', truth)).
                        (case recs of None \<Rightarrow> [] | Some l \<Rightarrow> l, fset_of_list truth))
            (map (\<lambda>l. (l, (fst l, f (fst l)))) ?E)
          = map (\<lambda>row. (recs_list row, fset_of_list (f (fst row)))) ?E"
      by (simp add: recs_list_def split_def o_def)
    also have "\<dots> = map (\<lambda>row. (recs_list row, truth_of test (fst row))) ?E"
      by (rule map_cong [OF refl]) (simp add: tr)
    finally show ?thesis
      unfolding inner_join_keyed [OF dg] ev .
  qed
  have ij: "inner_join fst fst recs_df (map (\<lambda>g. (g, f g)) gs)
              = map (\<lambda>l. (l, (fst l, f (fst l)))) (evaluated_rows us recs_df test max_users)"
    unfolding inner_join_keyed [OF dg] ev ..
  have len: "length (inner_join fst fst recs_df (map (\<lambda>g. (g, f g)) gs))
               = length (evaluated_rows us recs_df test max_users)"
    and nil: "(inner_join fst fst recs_df (map (\<lambda>g. (g, f g)) gs) = [])
               = (evaluated_rows us recs_df test max_users = [])"
    by (simp_all add: ij)
  show ?thesis
    unfolding evaluate_recs_def
    by (simp add: users_def [unfolded capped_users_def, symmetric] j truth_df rows len nil o_def Let_def)
qed

section \<open>Lemmas on the metrics\<close>

lemma py_prefix_nonneg: "0 \<le> k \<Longrightarrow> py_prefix xs k = take (nat k) xs"
  by (simp add: py_prefix_def)

lemma hits_distinct:
  "distinct xs \<Longrightarrow> length (filter (\<lambda>a. a |\<in>| truth) xs) = card (set xs \<inter> fset truth)"
  by (simp add: distinct_length_filter Int_commute Collect_mem_eq)

lemma hits_le_truth:
  "distinct xs \<Longrightarrow> length (filter (\<lambda>a. a |\<in>| truth) xs) \<le> fcard truth"
proof -
  assume d: "distinct xs"
  have "card (set xs \<inter> fset truth) \<le> card (fset truth)"
    by (rule card_mono) auto
  then show ?thesis using hits_distinct [OF d, of truth] by (simp add: fcard.rep_eq)
qed

lemma fcard_pos: "truth \<noteq> {||} \<Longrightarrow> 0 < fcard truth"
  by (metis fcard_fempty gr0I pfsubset_fcard_mono bot.not_eq_extremum)

lemma hits_upto_Cons:
  "hits_upto (a # pred) truth (Suc n) = (if a |\<in>| truth then 1 else 0) + hits_upto pred truth n"
  by (simp add: hits_upto_def)

lemma hits_upto_0: "hits_upto pred truth 0 = 0"
  by (simp add: hits_upto_def)

lemma ap_loop_sum:
  "ap_loop truth pred i hits s =
     s + (\<Sum>j\<leftarrow>[0..<length pred].
            if pred ! j |\<in>| truth
            then real (hits + hits_upto pred truth (Suc j)) / real (i + j) else 0)"
proof (induction pred arbitrary: i hits s)
  case Nil
  then show ?case by simp
next
  case (Cons a pred)
  have split: "[0..<length (a # pred)] = 0 # map Suc [0..<length pred]"
    by (simp add: upt_conv_Cons map_Suc_upt del: upt_Suc)
  show ?case
    unfolding split
    by (simp add: Cons.IH hits_upto_Cons hits_upto_0 o_def ac_simps del: upt_Suc cong: if_cong)
qed

lemma ap_loop_bounds:
  "hits < i \<Longrightarrow> s \<le> ap_loop truth pred i hits s \<and>
     ap_loop truth pred i hits s \<le> s + real (length (filter (\<lambda>a. a |\<in>| truth) pred))"
proof (induction pred arbitrary: i hits s)
  case Nil
  then show ?case by simp
next
  case (Cons a pred)
  show ?case
  proof (cases "a |\<in>| truth")
    case True
    define x where "x = real (hits + 1) / real i"
    have step: "0 \<le> x" "x \<le> 1"
      using Cons.prems by (simp_all add: x_def)
    have "hits + 1 < i + 1" using Cons.prems by simp
    from Cons.IH [OF this, of "s + x"]
    have ih: "s + x \<le> ap_loop truth pred (i + 1) (hits + 1) (s + x)"
      "ap_loop truth pred (i + 1) (hits + 1) (s + x)
         \<le> s + x + real (length (filter (\<lambda>a. a |\<in>| truth) pred))"
      by simp_all
    have unfold: "ap_loop truth (a # pred) i hits s = ap_loop truth pred (i + 1) (hits + 1) (s + x)"
      using True by (simp add: x_def)
    have len: "real (length (filter (\<lambda>a. a |\<in>| truth) (a # pred)))
                 = 1 + real (length (filter (\<lambda>a. a |\<in>| truth) pred))"
      using True by simp
    show ?thesis
      unfolding unfold len using ih step by linarith
  next
    case False
    have "hits < i + 1" using Cons.prems by simp
    from Cons.IH [OF this, of s] False show ?thesis by simp
  qed
qed


lemma spec_ap_sum_take:
  "ap_loop truth (take n recs) 1 0 0 =
     (\<Sum>i\<leftarrow>[1..<Suc (min n (length recs))].
        if recs ! (i - 1) |\<in>| truth then real (hits_upto recs truth i) / real i else 0)"
proof -
  let ?m = "min n (length recs)"
  have idx: "[1..<Suc ?m] = map Suc [0..<?m]"
    by (simp add: map_Suc_upt del: upt_Suc)
  have "ap_loop truth (take n recs) 1 0 0 =
          (\<Sum>j\<leftarrow>[0..<?m].
             if take n recs ! j |\<in>| truth
             then real (hits_upto (take n recs) truth (Suc j)) / real (1 + j) else 0)"
    by (simp add: ap_loop_sum min.commute del: upt_Suc cong: if_cong)
  also have "\<dots> = (\<Sum>j\<leftarrow>[0..<?m].
             if recs ! j |\<in>| truth
             then real (hits_upto recs truth (Suc j)) / real (Suc j) else 0)"
  proof -
    have "map (\<lambda>j. if take n recs ! j |\<in>| truth
             then real (hits_upto (take n recs) truth (Suc j)) / real (1 + j) else 0) [0..<?m]
        = map (\<lambda>j. if recs ! j |\<in>| truth
             then real (hits_upto recs truth (Suc j)) / real (Suc j) else 0) [0..<?m]"
    proof (rule map_cong [OF refl])
      fix j assume "j \<in> set [0..<?m]"
      then have j: "j < n" "j < length recs" by simp_all
      have "take (Suc j) (take n recs) = take (Suc j) recs"
        using j by (simp add: min_def)
      then show "(if take n recs ! j |\<in>| truth
             then real (hits_upto (take n recs) truth (Suc j)) / real (1 + j) else 0)
          = (if recs ! j |\<in>| truth
             then real (hits_upto recs truth (Suc j)) / real (Suc j) else 0)"
        using j by (simp add: hits_upto_def)
    qed
    then show ?thesis by (rule arg_cong [where f = sum_list])
  qed
  also have "\<dots> = (\<Sum>i\<leftarrow>[1..<Suc ?m].
        if recs ! (i - 1) |\<in>| truth then real (hits_upto recs truth i) / real i else 0)"
    unfolding idx by (simp add: o_def del: upt_Suc)
  finally show ?thesis .
qed

lemma ap_at_k_spec: "ap_at_k recs truth k = spec_ap_at_k recs truth k"
proof (cases "truth = {||}")
  case True
  then show ?thesis by (simp add: ap_at_k_def spec_ap_at_k_def)
next
  case False
  note ne = False
  show ?thesis
  proof (cases "0 < k")
    case True
    have pos: "0 < min (int (fcard truth)) k" using True fcard_pos [OF ne] by simp
    have pre: "py_prefix recs k = take (nat k) recs"
      using True by (simp add: py_prefix_def)
    have "ap_loop truth (py_prefix recs k) 1 0 0 = spec_ap_sum recs truth k"
      unfolding pre spec_ap_sum_def by (rule spec_ap_sum_take)
    then show ?thesis
      using ne pos by (simp add: ap_at_k_def spec_ap_at_k_def Let_def)
  next
    case False
    then have "\<not> 0 < min (int (fcard truth)) k" by simp
    moreover have "spec_ap_sum recs truth k = 0"
      using False by (simp add: spec_ap_sum_def)
    ultimately show ?thesis
      using ne by (simp add: ap_at_k_def spec_ap_at_k_def Let_def)
  qed
qed

lemma recall_bounds:
  assumes "distinct recs"
  shows "0 \<le> recall_at_k recs truth k \<and> recall_at_k recs truth k \<le> 1"
proof (cases "truth = {||}")
  case True
  then show ?thesis by (simp add: recall_at_k_def)
next
  case False
  have d: "distinct (py_prefix recs k)" using assms by (simp add: py_prefix_def)
  have "length (filter (\<lambda>a. a |\<in>| truth) (py_prefix recs k)) \<le> fcard truth"
    by (rule hits_le_truth [OF d])
  then show ?thesis
    using False fcard_pos [OF False] by (simp add: recall_at_k_def Let_def)
qed

lemma ap_bounds:
  assumes "distinct recs" and "1 \<le> k"
  shows "0 \<le> ap_at_k recs truth k \<and> ap_at_k recs truth k \<le> 1"
proof (cases "truth = {||}")
  case True
  then show ?thesis by (simp add: ap_at_k_def)
next
  case False
  let ?pred = "take (nat k) recs"
  let ?s = "ap_loop truth ?pred 1 0 0"
  let ?h = "length (filter (\<lambda>a. a |\<in>| truth) ?pred)"
  have d: "distinct ?pred" using assms by simp
  have b: "0 \<le> ?s" "?s \<le> real ?h"
    using ap_loop_bounds [of 0 1 0 truth ?pred] by simp_all
  have h1: "?h \<le> fcard truth" by (rule hits_le_truth [OF d])
  have "?h \<le> length ?pred" by (rule length_filter_le)
  also have "\<dots> \<le> nat k" by simp
  finally have h2: "?h \<le> nat k" .
  define denom where "denom = min (int (fcard truth)) k"
  have dpos: "0 < denom" using assms fcard_pos [OF False] by (simp add: denom_def)
  have "int ?h \<le> denom" using h1 h2 assms by (simp add: denom_def)
  then have "real ?h \<le> real_of_int denom" by linarith
  with b have sb: "0 \<le> ?s" "?s \<le> real_of_int denom" by linarith+
  have eq: "ap_at_k recs truth k = ?s / real_of_int denom"
    using False assms dpos by (simp add: ap_at_k_def py_prefix_def Let_def denom_def)
  show ?thesis
    unfolding eq using sb dpos by simp
qed

section \<open>Lemmas on the recommenders\<close>

lemma set_inner_join:
  "set (inner_join kl kr left right) = {(l, r). l \<in> set left \<and> r \<in> set right \<and> kr r = kl l}"
  by (auto simp: inner_join_def)

lemma group_rows_member:
  "(g, rs) \<in> set (group_rows key rows) \<Longrightarrow> rs = filter (\<lambda>r. key r = g) rows \<and> g \<in> key ` set rows"
  by (auto simp: group_rows_def)

lemma user_seen_keyed:
  "user_seen train =
     map (\<lambda>g. (g, unique_rows (map article_id (filter (\<lambda>r. customer_id r = g) train))))
       (unique_rows (map customer_id train))"
  by (simp add: user_seen_def group_rows_def o_def)

lemma base_frame_user_seen:
  "base_frame users (user_seen train) =
     map (\<lambda>u. (u, unique_rows (map article_id (filter (\<lambda>r. customer_id r = u) train)))) users"
proof -
  have none: "filter (\<lambda>r. customer_id r = u) train = []" if "u \<notin> customer_id ` set train" for u
    using that by (auto simp: filter_empty_conv)
  show ?thesis
    unfolding user_seen_keyed base_frame_def left_join_def
    by (induction users) (auto simp: filter_keyed none unique_rows_def)
qed

lemma recs_for_seen_loop_set:
  "set (recs_for_seen_loop k seen top_items out) \<subseteq> set out \<union> (set top_items - set seen)"
proof (induction top_items arbitrary: out)
  case Nil
  then show ?case by simp
next
  case (Cons a top_items)
  let ?out' = "if a \<notin> set seen then out @ [a] else out"
  have o: "set ?out' \<subseteq> set out \<union> (set (a # top_items) - set seen)"
    by auto
  show ?case
  proof (cases "int (length ?out') = k")
    case True
    then show ?thesis using o by (simp add: Let_def)
  next
    case False
    have "set (recs_for_seen_loop k seen top_items ?out')
            \<subseteq> set ?out' \<union> (set top_items - set seen)"
      by (rule Cons.IH)
    also have "\<dots> \<subseteq> set out \<union> (set (a # top_items) - set seen)"
      by auto
    finally show ?thesis using False by (simp add: Let_def)
  qed
qed

lemma recs_for_seen_loop_length:
  "int (length out) < k \<Longrightarrow> int (length (recs_for_seen_loop k seen top_items out)) \<le> k"
proof (induction top_items arbitrary: out)
  case Nil
  then show ?case by simp
next
  case (Cons a top_items)
  let ?out' = "if a \<notin> set seen then out @ [a] else out"
  show ?case
  proof (cases "int (length ?out') = k")
    case True
    then show ?thesis by (simp add: Let_def)
  next
    case False
    then have "int (length ?out') < k" using Cons.prems by (auto split: if_splits)
    from Cons.IH [OF this] False show ?thesis by (simp add: Let_def)
  qed
qed

lemma recs_for_seen_ok:
  "1 \<le> k \<Longrightarrow> int (length (recs_for_seen top_items k seen)) \<le> k"
  "set (recs_for_seen top_items k seen) \<inter> set seen = {}"
  using recs_for_seen_loop_length [of "[]" k seen top_items]
        recs_for_seen_loop_set [of k seen top_items "[]"]
  by (auto simp: recs_for_seen_def)

lemma build_popularity_recs_ok:
  assumes "1 \<le> k" and "(u, recs) \<in> set (build_popularity_recs train k max_users)"
  shows "int (length recs) \<le> k"
    and "set recs \<inter> article_id ` {r \<in> set train. customer_id r = u} = {}"
proof -
  from assms(2) have recs:
    "recs = recs_for_seen (top_items_of train) k
              (unique_rows (map article_id (filter (\<lambda>r. customer_id r = u) train)))"
    by (auto simp: build_popularity_recs_def base_frame_user_seen Let_def)
  show "int (length recs) \<le> k"
    unfolding recs by (rule recs_for_seen_ok(1) [OF assms(1)])
  have "set (unique_rows (map article_id (filter (\<lambda>r. customer_id r = u) train)))
          = article_id ` {r \<in> set train. customer_id r = u}"
    by auto
  then show "set recs \<inter> article_id ` {r \<in> set train. customer_id r = u} = {}"
    unfolding recs using recs_for_seen_ok(2) by metis
qed

lemma build_cooccurrence_recs_ok:
  assumes "(u, recs) \<in> set (build_cooccurrence_recs train neighbors_df k seed_items_per_user max_users)"
  shows "length recs \<le> k"
    and "set recs \<inter> article_id ` {r \<in> set train. customer_id r = u} = {}"
    and "u \<in> customer_id ` set train"
proof -
  define users where "users = (case max_users of
                     None \<Rightarrow> unique_rows (map customer_id train)
                   | Some m \<Rightarrow> if m = 0 then unique_rows (map customer_id train)
                              else take m (unique_rows (map customer_id train)))"
  define scored where "scored = scored_frame (seeds_of train seed_items_per_user) neighbors_df"
  define base where "base = base_frame users (user_seen train)"
  define filtered where "filtered =
     filter (\<lambda>(((u, n), score), (u', seen)). n \<notin> set seen)
       (inner_join (\<lambda>((u, n), score). u) fst scored base)"
  from assms have "(u, recs) \<in> set (map (\<lambda>(u, rs). (u, take k (map (\<lambda>(((u, n), score), b). n) rs)))
                   (group_rows (\<lambda>(((u, n), score), b). u) filtered))"
    by (simp add: build_cooccurrence_recs_def Let_def users_def scored_def base_def filtered_def)
  then obtain rs where rs: "(u, rs) \<in> set (group_rows (\<lambda>(((u, n), score), b). u) filtered)"
    and recs: "recs = take k (map (\<lambda>(((u, n), score), b). n) rs)"
    by auto
  show "length recs \<le> k" by (simp add: recs)
  have rs_eq: "rs = filter (\<lambda>r. (\<lambda>(((u, n), score), b). u) r = u) filtered"
    using group_rows_member [OF rs] by simp
  have users_sub: "set users \<subseteq> customer_id ` set train"
    by (auto simp: users_def split: option.splits if_splits dest: in_set_takeD)
  have base_eq: "base = map (\<lambda>u. (u, unique_rows (map article_id (filter (\<lambda>r. customer_id r = u) train)))) users"
    by (simp add: base_def base_frame_user_seen)
  have key: "n \<notin> article_id ` {r \<in> set train. customer_id r = u} \<and> u \<in> set users"
    if "(((u0, n), score), b) \<in> set rs" for u0 n score b
  proof -
    from that have f: "(((u0, n), score), b) \<in> set filtered" and u0: "u0 = u"
      by (auto simp: rs_eq)
    from f have nb: "n \<notin> set (snd b)" and bb: "b \<in> set base" and fb: "fst b = u0"
      by (auto simp: filtered_def set_inner_join)
    from bb fb have "snd b = unique_rows (map article_id (filter (\<lambda>r. customer_id r = u0) train))"
      and "u0 \<in> set users"
      by (auto simp: base_eq)
    with nb u0 show ?thesis by auto
  qed
  show "set recs \<inter> article_id ` {r \<in> set train. customer_id r = u} = {}"
  proof -
    have "set recs \<subseteq> set (map (\<lambda>(((u, n), score), b). n) rs)"
      unfolding recs by (rule set_take_subset)
    then show ?thesis using key by fastforce
  qed
  from group_rows_member [OF rs] obtain row where "row \<in> set rs"
    unfolding rs_eq by auto
  then obtain u0 n score b where "(((u0, n), score), b) \<in> set rs"
    by (metis surj_pair)
  from key [OF this] users_sub show "u \<in> customer_id ` set train"
    by blast
qed

lemma top_by_take:
  assumes "mset S = mset rows" and "sorted_wrt (\<lambda>a b. score b \<le> score a) S"
  shows "top_by score n (take n S) rows"
proof -
  have split: "mset rows = mset (take n S) + mset (drop n S)"
    using assms(1) by (metis append_take_drop_id mset_append)
  have "sorted_wrt (\<lambda>a b. score b \<le> score a) (take n S @ drop n S)"
    using assms(2) by simp
  then have cross: "\<forall>y \<in> set (take n S). \<forall>x \<in> set (drop n S). score x \<le> score y"
    by (simp only: sorted_wrt_append) blast
  have len: "length S = length rows"
    using assms(1) by (rule mset_eq_length)
  show ?thesis
    unfolding top_by_def
    using cross len assms(2) by (simp add: split)
qed

lemma filter_concat_keyed:
  assumes "distinct gs" and "\<And>g' x. g' \<in> set gs \<Longrightarrow> x \<in> set (h g') \<Longrightarrow> key x = g'"
  shows "filter (\<lambda>x. key x = g) (concat (map h gs)) = (if g \<in> set gs then h g else [])"
  using assms
proof (induction gs)
  case Nil
  then show ?case by simp
next
  case (Cons a gs)
  have all: "filter (\<lambda>x. key x = a) (h a) = h a"
    using Cons.prems(2) [of a] by (simp add: filter_id_conv)
  have none: "filter (\<lambda>x. key x = g) (h a) = []" if "g \<noteq> a"
    using Cons.prems(2) [of a] that by (auto simp: filter_empty_conv)
  have ih: "filter (\<lambda>x. key x = g) (concat (map h gs)) = (if g \<in> set gs then h g else [])"
    using Cons by simp
  show ?case
  proof (cases "g = a")
    case True
    with ih Cons.prems(1) show ?thesis by (simp add: all)
  next
    case False
    then show ?thesis by (simp add: ih none)
  qed
qed

lemma filter_group_take:
  "filter (\<lambda>r. key r = g) (group_take key n rows) = take n (filter (\<lambda>r. key r = g) rows)"
proof -
  let ?h = "\<lambda>g'. take n (filter (\<lambda>r. key r = g') rows)"
  have gh: "group_take key n rows = concat (map ?h (unique_rows (map key rows)))"
    by (simp add: group_take_def group_rows_def o_def)
  have "filter (\<lambda>r. key r = g) (concat (map ?h (unique_rows (map key rows))))
          = (if g \<in> set (unique_rows (map key rows)) then ?h g else [])"
    by (rule filter_concat_keyed) (auto dest: in_set_takeD)
  moreover have "filter (\<lambda>r. key r = g) rows = []" if "g \<notin> key ` set rows"
    using that by (auto simp: filter_empty_conv)
  ultimately show ?thesis
    unfolding gh by auto
qed

lemma set_group_take: "set (group_take key n rows) \<subseteq> set rows"
  by (auto simp: group_take_def group_rows_def dest: in_set_takeD)

lemma group_head_pos:
  assumes "0 < n"
  shows "group_head key n rows = map (\<lambda>r. (key r, Some r)) (group_take key n rows)"
proof -
  have one: "(case take n (filter (\<lambda>r. key r = g) rows) of
                [] \<Rightarrow> [(g, None)]
              | r # kept \<Rightarrow> map (\<lambda>r. (g, Some r)) (r # kept))
             = map (\<lambda>r. (key r, Some r)) (take n (filter (\<lambda>r. key r = g) rows))"
    if "g \<in> key ` set rows" for g
  proof -
    from that have "filter (\<lambda>r. key r = g) rows \<noteq> []"
      by (auto simp: filter_empty_conv)
    with assms have ne: "take n (filter (\<lambda>r. key r = g) rows) \<noteq> []"
      by simp
    from ne obtain r kept where tk: "take n (filter (\<lambda>r. key r = g) rows) = r # kept"
      by (cases "take n (filter (\<lambda>r. key r = g) rows)") auto
    have "(case take n (filter (\<lambda>r. key r = g) rows) of
                [] \<Rightarrow> [(g, None)]
              | r # kept \<Rightarrow> map (\<lambda>r. (g, Some r)) (r # kept))
            = map (\<lambda>r. (g, Some r)) (take n (filter (\<lambda>r. key r = g) rows))"
      by (simp add: tk)
    also have "\<dots> = map (\<lambda>r. (key r, Some r)) (take n (filter (\<lambda>r. key r = g) rows))"
      by (rule map_cong [OF refl]) (auto dest: in_set_takeD)
    finally show ?thesis .
  qed
  have "map (\<lambda>g. case take n (filter (\<lambda>r. key r = g) rows) of
                [] \<Rightarrow> [(g, None)]
              | r # kept \<Rightarrow> map (\<lambda>r. (g, Some r)) (r # kept)) (unique_rows (map key rows))
        = map (\<lambda>g. map (\<lambda>r. (key r, Some r)) (take n (filter (\<lambda>r. key r = g) rows)))
            (unique_rows (map key rows))"
    by (rule map_cong [OF refl]) (simp add: one)
  then have "concat (map (\<lambda>g. case take n (filter (\<lambda>r. key r = g) rows) of
                [] \<Rightarrow> [(g, None)]
              | r # kept \<Rightarrow> map (\<lambda>r. (g, Some r)) (r # kept)) (unique_rows (map key rows)))
        = concat (map (\<lambda>g. map (\<lambda>r. (key r, Some r)) (take n (filter (\<lambda>r. key r = g) rows)))
            (unique_rows (map key rows)))"
    by (rule arg_cong [where f = concat])
  then show ?thesis
    by (simp only: group_head_def group_take_def group_rows_def map_map o_def prod.case map_concat)
qed

lemma group_head_zero:
  "group_head key 0 rows = map (\<lambda>g. (g, None)) (unique_rows (map key rows))"
  by (simp add: group_head_def group_rows_def o_def)

lemma kept_rows_Some [simp]: "kept_rows (map (\<lambda>r. (f r, Some (h r))) xs) = map h xs"
  by (induction xs) (simp_all add: kept_rows_def)

lemma rows_of_Some_id:
  "rows_of g (map (\<lambda>r. (f r, Some r)) xs) = filter (\<lambda>r. f r = g) xs"
  by (induction xs) (simp_all add: rows_of_def kept_rows_def)

lemma rows_of_Some: "rows_of g (map (\<lambda>r. (f r, Some (h r))) xs) = map h (filter (\<lambda>r. f r = g) xs)"
  by (simp add: rows_of_def filter_map o_def)

lemma group_len_keyed:
  "group_len key rows =
     map (\<lambda>g. (g, length (filter (\<lambda>r. key r = g) rows))) (unique_rows (map key rows))"
  by (simp add: group_len_def group_rows_def o_def)

lemma seed_rows_pos:
  "0 < n \<Longrightarrow> seed_rows train n =
     map (\<lambda>r. (customer_id r, Some r))
       (group_take customer_id n (sort_key (\<lambda>r. (customer_id r, - implicit_score r)) train))"
  by (simp add: seed_rows_def group_head_pos)

lemma seed_rows_of_user:
  "0 < n \<Longrightarrow> rows_of u (seed_rows train n) =
     take n (sort_key (\<lambda>r. (customer_id r, - implicit_score r)) (filter (\<lambda>r. customer_id r = u) train))"
  by (simp add: seed_rows_pos rows_of_Some_id filter_group_take filter_sort)

lemma seeds_of_train:
  "(u, Some a) \<in> set (seeds_of train n) \<Longrightarrow> \<exists>r \<in> set train. customer_id r = u \<and> article_id r = a"
proof (cases "n = 0")
  case True
  assume "(u, Some a) \<in> set (seeds_of train n)"
  with True show ?thesis
    by (auto simp: seeds_of_def seed_rows_def group_head_zero)
next
  case False
  assume "(u, Some a) \<in> set (seeds_of train n)"
  with False obtain r where "r \<in> set (group_take customer_id n
        (sort_key (\<lambda>r. (customer_id r, - implicit_score r)) train))"
      and "customer_id r = u" "article_id r = a"
    by (auto simp: seeds_of_def seed_rows_pos)
  then show ?thesis
    using set_group_take [of customer_id n] by fastforce
qed

lemma sorted_user_rows:
  "sorted_wrt (\<lambda>a b. implicit_score b \<le> implicit_score a)
     (sort_key (\<lambda>r. (customer_id r, - implicit_score r)) (filter (\<lambda>r. customer_id r = u) train))"
proof -
  let ?K = "\<lambda>r. (customer_id r, - implicit_score r)"
  let ?S = "sort_key ?K (filter (\<lambda>r. customer_id r = u) train)"
  have "sorted (map ?K ?S)" by (rule sorted_sort_key)
  then have "sorted_wrt (\<lambda>x y. ?K x \<le> ?K y) ?S" by (simp only: sorted_map)
  then show ?thesis
    by (rule sorted_wrt_mono_rel [rotated]) (auto simp: less_eq_prod_def)
qed

lemma seed_rows_top:
  "0 < n \<Longrightarrow> top_by implicit_score n (rows_of u (seed_rows train n))
     (filter (\<lambda>r. customer_id r = u) train)"
  unfolding seed_rows_of_user
  by (rule top_by_take) (simp_all add: sorted_user_rows)

lemma build_item_neighbors_pos:
  "0 < m \<Longrightarrow> build_item_neighbors train s m =
     map (\<lambda>x. ((\<lambda>((i, n), c). i) x, Some ((\<lambda>((i, n), c). \<lparr>item = i, neighbor = n, cnt = c\<rparr>) x)))
       (group_take (\<lambda>((i, n), c). i) m (pair_counts (seeds_of train s)))"
  by (simp add: build_item_neighbors_def Let_def group_head_pos o_def split_def)

lemma build_item_neighbors_of_item:
  assumes "0 < m"
  shows "rows_of i (build_item_neighbors train s m) =
     map (\<lambda>((i, n), c). \<lparr>item = i, neighbor = n, cnt = c\<rparr>)
       (take m (filter (\<lambda>((i', n'), c). i' = i) (pair_counts (seeds_of train s))))"
proof -
  have "rows_of i (build_item_neighbors train s m) =
     map (\<lambda>((i, n), c). \<lparr>item = i, neighbor = n, cnt = c\<rparr>)
       (filter (\<lambda>x. (\<lambda>((i', n'), c). i') x = i)
          (group_take (\<lambda>((i', n'), c). i') m (pair_counts (seeds_of train s))))"
    unfolding build_item_neighbors_pos [OF assms] by (rule rows_of_Some)
  also have "\<dots> = map (\<lambda>((i, n), c). \<lparr>item = i, neighbor = n, cnt = c\<rparr>)
       (take m (filter (\<lambda>x. (\<lambda>((i', n'), c). i') x = i) (pair_counts (seeds_of train s))))"
    by (simp only: filter_group_take)
  finally show ?thesis by (simp add: split_def)
qed

lemma build_item_neighbors_rows_of_item:
  assumes "0 < m"
  shows "length (filter (\<lambda>row. fst row = i) (build_item_neighbors train s m)) \<le> m"
proof -
  have "filter (\<lambda>row. fst row = i) (build_item_neighbors train s m) =
     map (\<lambda>x. ((\<lambda>((i, n), c). i) x, Some ((\<lambda>((i, n), c). \<lparr>item = i, neighbor = n, cnt = c\<rparr>) x)))
       (filter (\<lambda>x. (\<lambda>((i', n'), c). i') x = i)
          (group_take (\<lambda>((i', n'), c). i') m (pair_counts (seeds_of train s))))"
    unfolding build_item_neighbors_pos [OF assms] by (simp add: filter_map o_def)
  then show ?thesis by (simp add: filter_group_take)
qed

lemma sorted_item_counts:
  "sorted_wrt (\<lambda>a b. snd b \<le> snd a) (filter (\<lambda>((i', n'), c). i' = i) (pair_counts seeds))"
proof -
  let ?K = "\<lambda>((i, n), c). (i, - int c)"
  obtain raw where pc: "pair_counts seeds = sort_key ?K raw"
    by (simp add: pair_counts_def Let_def)
  have "sorted (map ?K (sort_key ?K raw))" by (rule sorted_sort_key)
  then have "sorted_wrt (\<lambda>x y. ?K x \<le> ?K y) (pair_counts seeds)"
    by (simp only: sorted_map pc)
  then have "sorted_wrt (\<lambda>x y. ?K x \<le> ?K y) (filter (\<lambda>((i', n'), c). i' = i) (pair_counts seeds))"
    by (rule sorted_wrt_filter)
  then show ?thesis
    by (rule sorted_wrt_mono_rel [rotated]) (auto simp: less_eq_prod_def)
qed

lemma pair_counts_no_self: "((i, n), c) \<in> set (pair_counts seeds) \<Longrightarrow> i \<noteq> n"
  by (auto simp: pair_counts_def Let_def group_len_keyed split: option.splits if_splits)

lemma build_item_neighbors_edge:
  assumes "0 < m" and "row \<in> set (build_item_neighbors train s m)"
  shows "\<exists>e. snd row = Some e \<and> item e = fst row \<and> item e \<noteq> neighbor e"
proof -
  from assms obtain x where x: "x \<in> set (group_take (\<lambda>((i, n), c). i) m (pair_counts (seeds_of train s)))"
    and row: "row = ((\<lambda>((i, n), c). i) x, Some ((\<lambda>((i, n), c). \<lparr>item = i, neighbor = n, cnt = c\<rparr>) x))"
    by (auto simp: build_item_neighbors_pos)
  from x have "x \<in> set (pair_counts (seeds_of train s))"
    using set_group_take by fastforce
  moreover obtain i n c where "x = ((i, n), c)"
    by (metis surj_pair)
  ultimately show ?thesis
    using row pair_counts_no_self [of i n c "seeds_of train s"] by simp
qed

lemma build_item_neighbors_top:
  assumes "0 < m"
  shows "top_by cnt m (rows_of i (build_item_neighbors train s m))
     (map (\<lambda>((i, n), c). \<lparr>item = i, neighbor = n, cnt = c\<rparr>)
        (filter (\<lambda>((i', n'), c). i' = i) (pair_counts (seeds_of train s))))"
proof -
  let ?E = "\<lambda>((i, n), c). \<lparr>item = i, neighbor = n, cnt = c\<rparr>"
  let ?S = "filter (\<lambda>((i', n'), c). i' = i) (pair_counts (seeds_of train s))"
  have "sorted_wrt (\<lambda>a b. cnt (?E b) \<le> cnt (?E a)) ?S"
    using sorted_item_counts [of i "seeds_of train s"] by (simp add: split_def)
  then have "sorted_wrt (\<lambda>a b. cnt b \<le> cnt a) (map ?E ?S)"
    by (simp only: sorted_wrt_map)
  then have "top_by cnt m (take m (map ?E ?S)) (map ?E ?S)"
    by (intro top_by_take) simp_all
  then show ?thesis
    by (simp only: build_item_neighbors_of_item [OF assms] take_map)
qed

lemma top_items_of_top:
  "top_by (item_popularity train) 5000 (top_items_of train) (unique_rows (map article_id train))"
proof -
  let ?gs = "unique_rows (map article_id train)"
  let ?K = "\<lambda>(a, c). - int c"
  let ?S = "sort_key ?K (group_len article_id train)"
  have gl: "group_len article_id train = map (\<lambda>g. (g, item_popularity train g)) ?gs"
    by (simp add: group_len_keyed item_popularity_def)
  have snd_eq: "snd x = item_popularity train (fst x)" if "x \<in> set ?S" for x
    using that by (auto simp: gl)
  have "mset (map fst ?S) = image_mset fst (mset (group_len article_id train))"
    by simp
  also have "\<dots> = mset ?gs"
    by (simp add: gl image_mset.compositionality o_def del: mset_map flip: mset_map)
  finally have ms: "mset (map fst ?S) = mset ?gs" .
  have "sorted (map ?K ?S)" by (rule sorted_sort_key)
  then have "sorted_wrt (\<lambda>x y. ?K x \<le> ?K y) ?S" by (simp only: sorted_map)
  then have "sorted_wrt (\<lambda>x y. item_popularity train (fst y) \<le> item_popularity train (fst x)) ?S"
    by (rule sorted_wrt_mono_rel [rotated]) (auto simp: snd_eq [symmetric] split_def)
  then have "sorted_wrt (\<lambda>a b. item_popularity train b \<le> item_popularity train a) (map fst ?S)"
    by (simp only: sorted_wrt_map)
  with ms have "top_by (item_popularity train) 5000 (take 5000 (map fst ?S)) ?gs"
    by (rule top_by_take)
  then show ?thesis by (simp only: top_items_of_def)
qed

lemma scored_frame_member:
  assumes "(u, Some (item e)) \<in> set seeds" and "e \<in> set neigh"
  shows "\<exists>score. ((u, neighbor e), score) \<in> set (scored_frame seeds neigh)"
proof -
  let ?joined = "inner_join snd (\<lambda>e. Some (item e)) seeds neigh"
  let ?gk = "\<lambda>(sd, e). (fst sd, neighbor e)"
  have "((u, Some (item e)), e) \<in> set ?joined"
    using assms by (simp add: set_inner_join)
  then have "?gk ((u, Some (item e)), e) \<in> ?gk ` set ?joined"
    by (rule imageI)
  then have "(u, neighbor e) \<in> set (unique_rows (map ?gk ?joined))"
    by simp
  then have "(u, neighbor e) \<in> fst ` set (group_rows ?gk ?joined)"
    by (simp add: group_rows_keys [symmetric] del: set_unique_rows)
  then show ?thesis
    by (force simp: scored_frame_def Let_def)
qed

lemma build_cooccurrence_recs_serves:
  assumes cap: "cap_keeps_all train max_users"
    and cand: "has_candidate train neighbors_df seed_items_per_user u"
  shows "\<exists>recs. (u, recs) \<in> set (build_cooccurrence_recs train neighbors_df k seed_items_per_user max_users)
           \<and> (1 \<le> k \<longrightarrow> recs \<noteq> [])"
proof -
  define users where "users = (case max_users of
                     None \<Rightarrow> unique_rows (map customer_id train)
                   | Some m \<Rightarrow> if m = 0 then unique_rows (map customer_id train)
                              else take m (unique_rows (map customer_id train)))"
  define scored where "scored = scored_frame (seeds_of train seed_items_per_user) neighbors_df"
  define base where "base = base_frame users (user_seen train)"
  define key :: "((string \<times> string) \<times> nat) \<times> (string \<times> string list) \<Rightarrow> string"
    where "key = (\<lambda>(((u, n), score), b). u)"
  define filtered where "filtered =
     filter (\<lambda>(((u, n), score), (u', seen)). n \<notin> set seen)
       (inner_join (\<lambda>((u, n), score). u) fst scored base)"
  define seen where "seen = unique_rows (map article_id (filter (\<lambda>r. customer_id r = u) train))"
  have out: "build_cooccurrence_recs train neighbors_df k seed_items_per_user max_users
               = map (\<lambda>(u, rs). (u, take k (map (\<lambda>(((u, n), score), b). n) rs)))
                   (group_rows key filtered)"
    by (simp add: build_cooccurrence_recs_def Let_def users_def scored_def base_def filtered_def key_def)
  from cand obtain e where e: "e \<in> set neighbors_df"
    and seed: "(u, Some (item e)) \<in> set (seeds_of train seed_items_per_user)"
    and unseen: "neighbor e \<notin> article_id ` {r \<in> set train. customer_id r = u}"
    by (auto simp: has_candidate_def)
  from scored_frame_member [OF seed e] obtain score where
    sc: "((u, neighbor e), score) \<in> set scored"
    by (auto simp: scored_def)
  have all: "users = unique_rows (map customer_id train)"
    using cap by (auto simp: users_def cap_keeps_all_def split: option.splits)
  from seeds_of_train [OF seed] have "u \<in> set users"
    by (auto simp: all)
  then have b: "(u, seen) \<in> set base"
    by (auto simp: base_def base_frame_user_seen seen_def)
  have ns: "neighbor e \<notin> set seen"
    using unseen by (auto simp: seen_def)
  have row: "(((u, neighbor e), score), (u, seen)) \<in> set filtered"
    using sc b ns by (simp add: filtered_def set_inner_join)
  let ?rs = "filter (\<lambda>r. key r = u) filtered"
  have in_rs: "(((u, neighbor e), score), (u, seen)) \<in> set ?rs"
    using row by (simp add: key_def)
  then have ne: "?rs \<noteq> []" by (metis empty_iff empty_set)
  have "u \<in> key ` set filtered"
    using row by (force simp: key_def)
  then have "(u, ?rs) \<in> set (group_rows key filtered)"
    by (simp add: group_rows_def image_iff)
  then have "(u, take k (map (\<lambda>(((u, n), score), b). n) ?rs))
               \<in> set (build_cooccurrence_recs train neighbors_df k seed_items_per_user max_users)"
    unfolding out by force
  moreover have "1 \<le> k \<longrightarrow> take k (map (\<lambda>(((u, n), score), b). n) ?rs) \<noteq> []"
    using ne by (cases k) auto
  ultimately show ?thesis by blast
qed

text \<open>
  What \<open>head(0)\<close> leaves: with \<open>neighbors_per_item = 0\<close> the frame of
  \<open>build_item_neighbors\<close> has one null row per item, and with
  \<open>seed_items_per_user = 0\<close> every seed is null, no pair is formed and the frame is empty.
\<close>

lemma build_item_neighbors_head_zero:
  "build_item_neighbors
        [\<lparr>customer_id = ''u'', article_id = ''a'', freq = 1, last_seen = 0, implicit_score = 1\<rparr>,
         \<lparr>customer_id = ''u'', article_id = ''c'', freq = 1, last_seen = 0, implicit_score = 1\<rparr>]
        10 0
     = [(''a'', None), (''c'', None)]
   \<and> seeds_of
        [\<lparr>customer_id = ''u'', article_id = ''a'', freq = 1, last_seen = 0, implicit_score = 1\<rparr>,
         \<lparr>customer_id = ''u'', article_id = ''c'', freq = 1, last_seen = 0, implicit_score = 1\<rparr>]
        0
     = [(''u'', None)]
   \<and> build_item_neighbors
        [\<lparr>customer_id = ''u'', article_id = ''a'', freq = 1, last_seen = 0, implicit_score = 1\<rparr>,
         \<lparr>customer_id = ''u'', article_id = ''c'', freq = 1, last_seen = 0, implicit_score = 1\<rparr>]
        0 50
     = []"
  unfolding build_item_neighbors_def pair_counts_def seeds_of_def seed_rows_def Let_def
  by (simp add: unique_rows_def group_rows_def group_head_def group_len_def inner_join_def)

section \<open>Claims on the metrics\<close>

text \<open>
  C5 (as stated, refuted). The claim reads recall@K as the size of the set intersection of
  the first \<open>K\<close> predictions with the truth set, over the size of the truth set. The
  code counts positions, so an item that occurs twice among the predictions is counted
  twice: on \<open>recs = ["a", "a"]\<close>, \<open>truth = {"a"}\<close>, \<open>K = 5\<close> it returns \<open>2.0\<close>, while
  the intersection has one element.
\<close>

theorem recall_at_k_set_counterexample:
  "recall_at_k [''a'', ''a''] {|''a''|} 5 = 2 \<and>
   real (card (set (take 5 [''a'', ''a'']) \<inter> fset {|''a''|})) / real (fcard {|''a''|}) = 1"
  by (simp add: recall_at_k_def py_prefix_def fcard_finsert_if fcard_fempty)

text \<open>
  C5 (amended). For every prediction list, truth set and \<open>K\<close>, \<open>recall_at_k\<close> is the
  number of positions of \<open>recs[:K]\<close> that hold an item of the truth set, divided by the size
  of the truth set, and \<open>0.0\<close> when the truth set is empty. When \<open>recs[:K]\<close> has no
  repeated item, that number is the size of the intersection of \<open>recs[:K]\<close> with the truth
  set. The two examples of the specification hold.
\<close>

theorem recall_at_k_counts_positions:
  "recall_at_k recs truth k =
     (if truth = {||} then 0
      else real (card {i. i < length (py_prefix recs k) \<and> py_prefix recs k ! i |\<in>| truth})
             / real (fcard truth))
   \<and> (distinct (py_prefix recs k) \<longrightarrow>
        recall_at_k recs truth k =
          (if truth = {||} then 0
           else real (card (set (py_prefix recs k) \<inter> fset truth)) / real (fcard truth)))
   \<and> recall_at_k [''x'', ''a'', ''y''] {|''a'', ''b''|} 3 = 1 / 2
   \<and> recall_at_k [] {|''a''|} 5 = 0"
proof -
  have "recall_at_k recs truth k =
     (if truth = {||} then 0
      else real (card {i. i < length (py_prefix recs k) \<and> py_prefix recs k ! i |\<in>| truth})
             / real (fcard truth))"
    by (simp add: recall_at_k_def Let_def length_filter_conv_card)
  moreover have "distinct (py_prefix recs k) \<longrightarrow>
        recall_at_k recs truth k =
          (if truth = {||} then 0
           else real (card (set (py_prefix recs k) \<inter> fset truth)) / real (fcard truth))"
    by (simp add: recall_at_k_def Let_def hits_distinct)
  moreover have "recall_at_k [''x'', ''a'', ''y''] {|''a'', ''b''|} 3 = 1 / 2"
    by (simp add: recall_at_k_def py_prefix_def fcard_finsert_if fcard_fempty)
  moreover have "recall_at_k [] {|''a''|} 5 = 0"
    by (simp add: recall_at_k_def py_prefix_def)
  ultimately show ?thesis by blast
qed

theorem recall_at_k_counts_positions_witness:
  "distinct (py_prefix [''x'', ''a'', ''y''] 3) \<and>
   recall_at_k [''x'', ''a'', ''y''] {|''a'', ''b''|} 3 =
     real (card (set (py_prefix [''x'', ''a'', ''y''] 3) \<inter> fset {|''a'', ''b''|}))
       / real (fcard {|''a'', ''b''|})"
proof -
  have d: "distinct (py_prefix [''x'', ''a'', ''y''] 3)"
    by (simp add: py_prefix_def)
  have ne: "{|''a'', ''b''|} \<noteq> {||}"
    by simp
  from recall_at_k_counts_positions [of "[''x'', ''a'', ''y'']" "{|''a'', ''b''|}" 3]
  have "distinct (py_prefix [''x'', ''a'', ''y''] 3) \<longrightarrow>
        recall_at_k [''x'', ''a'', ''y''] {|''a'', ''b''|} 3 =
          (if {|''a'', ''b''|} = {||} then 0
           else real (card (set (py_prefix [''x'', ''a'', ''y''] 3) \<inter> fset {|''a'', ''b''|}))
                  / real (fcard {|''a'', ''b''|}))"
    by blast
  with d ne show ?thesis by (simp only: if_False simp_thms)
qed

text \<open>
  C6. For every prediction list, truth set and \<open>K\<close>, the loop of \<open>ap_at_k\<close> computes the
  sum the specification describes, and the function returns that sum divided by
  \<open>min(|truth|, K)\<close>, or \<open>0.0\<close> when the truth set is empty. For \<open>K \<le> 0\<close> the range
  \<open>1..K\<close> is empty and the sum is \<open>0\<close>; the code returns \<open>0.0\<close> there through its
  guard \<open>denom > 0\<close>, and so does the formula (at \<open>K = 0\<close> its quotient is \<open>0 / 0\<close>,
  which is \<open>0\<close> in HOL). The two examples of the specification hold.
\<close>

theorem ap_at_k_refines_spec:
  "ap_at_k recs truth k = spec_ap_at_k recs truth k
   \<and> ap_at_k [''a'', ''b''] {|''a''|} 5 = 1
   \<and> ap_at_k [''b'', ''a''] {|''a''|} 5 = 1 / 2"
proof -
  have "ap_at_k [''a'', ''b''] {|''a''|} 5 = 1"
    by (simp add: ap_at_k_def py_prefix_def fcard_finsert_if fcard_fempty)
  moreover have "ap_at_k [''b'', ''a''] {|''a''|} 5 = 1 / 2"
    by (simp add: ap_at_k_def py_prefix_def fcard_finsert_if fcard_fempty)
  ultimately show ?thesis using ap_at_k_spec [of recs truth k] by blast
qed

theorem ap_at_k_refines_spec_witness:
  "spec_ap_at_k [''b'', ''a''] {|''a''|} 5 = 1 / 2"
  using ap_at_k_refines_spec [of "[''b'', ''a'']" "{|''a''|}" 5] by simp

text \<open>
  C10. For a prediction list without repeated items, any truth set and \<open>K \<ge> 1\<close>, both
  metrics lie in \<open>[0, 1]\<close>. With a repeated item the bound fails for both:
  \<open>recall_at_k(["a", "a"], {"a"}, 5)\<close> and \<open>ap_at_k(["a", "a"], {"a"}, 5)\<close> exceed \<open>1\<close>.
\<close>

theorem metrics_in_unit_interval:
  "(distinct recs \<longrightarrow> 1 \<le> k \<longrightarrow>
      0 \<le> recall_at_k recs truth k \<and> recall_at_k recs truth k \<le> 1 \<and>
      0 \<le> ap_at_k recs truth k \<and> ap_at_k recs truth k \<le> 1)
   \<and> 1 < recall_at_k [''a'', ''a''] {|''a''|} 5
   \<and> 1 < ap_at_k [''a'', ''a''] {|''a''|} 5"
proof -
  have "1 < recall_at_k [''a'', ''a''] {|''a''|} 5"
    by (simp add: recall_at_k_def py_prefix_def fcard_finsert_if fcard_fempty)
  moreover have "1 < ap_at_k [''a'', ''a''] {|''a''|} 5"
    by (simp add: ap_at_k_def py_prefix_def fcard_finsert_if fcard_fempty)
  ultimately show ?thesis
    using recall_bounds [of recs truth k] ap_bounds [of recs k truth] by blast
qed

theorem metrics_in_unit_interval_witness:
  "distinct [''b'', ''a''] \<and> (1::int) \<le> 5 \<and>
   0 \<le> recall_at_k [''b'', ''a''] {|''a''|} 5 \<and> recall_at_k [''b'', ''a''] {|''a''|} 5 \<le> 1 \<and>
   0 \<le> ap_at_k [''b'', ''a''] {|''a''|} 5 \<and> ap_at_k [''b'', ''a''] {|''a''|} 5 \<le> 1"
  using metrics_in_unit_interval [of "[''b'', ''a'']" 5 "{|''a''|}"] by simp

section \<open>Claim on the time split\<close>

text \<open>
  C4. For every interaction frame and cutoff date, the train frame holds exactly the rows
  with \<open>last_seen < cutoff\<close> and the test frame exactly those with
  \<open>last_seen \<ge> cutoff\<close>, each as often as the input holds it; together they hold every
  input row exactly once, and no row is in both.
\<close>

theorem make_time_split_partition:
  "mset (fst (make_time_split lf cutoff)) = filter_mset (\<lambda>r. last_seen r < cutoff) (mset lf)
   \<and> mset (snd (make_time_split lf cutoff)) = filter_mset (\<lambda>r. cutoff \<le> last_seen r) (mset lf)
   \<and> mset (fst (make_time_split lf cutoff)) + mset (snd (make_time_split lf cutoff)) = mset lf
   \<and> set (fst (make_time_split lf cutoff)) \<inter> set (snd (make_time_split lf cutoff)) = {}"
proof -
  have part: "filter_mset (\<lambda>r. last_seen r < cutoff) (mset lf)
              + filter_mset (\<lambda>r. cutoff \<le> last_seen r) (mset lf) = mset lf"
    by (induction lf) auto
  have disj: "set (filter (\<lambda>r. last_seen r < cutoff) lf)
              \<inter> set (filter (\<lambda>r. cutoff \<le> last_seen r) lf) = {}"
    by auto
  show ?thesis
    using part disj by (simp add: make_time_split_def)
qed

section \<open>Claim on the evaluator\<close>

text \<open>
  C1 (as stated, refuted). The recommendation frame has rows for \<open>u1\<close> and \<open>u2\<close>; the
  test frame has one row, of \<open>u1\<close>. The claim has \<open>u2\<close> scored \<open>0.0\<close> and counted:
  two users evaluated and a mean recall of \<open>0.5\<close>. The code joins the recommendation
  rows with the truth frame by an inner join, so the row of \<open>u2\<close> is dropped: one user
  evaluated, mean recall \<open>1.0\<close>. The cap of \<open>100000\<close> keeps both users, so the result
  is the same for both orders in which \<open>unique()\<close> can return them.
\<close>

theorem evaluate_recs_zero_truth_counterexample:
  "unique_of (map fst [(''u1'', Some [''a'']), (''u2'', Some [''b''])]) [''u1'', ''u2'']
   \<and> unique_of (map fst [(''u1'', Some [''a'']), (''u2'', Some [''b''])]) [''u2'', ''u1'']
   \<and> evaluate_recs [''u1'', ''u2''] ''popularity'' [(''u1'', Some [''a'']), (''u2'', Some [''b''])]
       [\<lparr>customer_id = ''u1'', article_id = ''a'', freq = 1, last_seen = 0, implicit_score = 1\<rparr>]
       12 (Some 100000)
     = \<lparr>mr_model = ''popularity'', mr_recall_at_k = 1, mr_map_at_k = 1, mr_users = 1\<rparr>
   \<and> evaluate_recs [''u2'', ''u1''] ''popularity'' [(''u1'', Some [''a'']), (''u2'', Some [''b''])]
       [\<lparr>customer_id = ''u1'', article_id = ''a'', freq = 1, last_seen = 0, implicit_score = 1\<rparr>]
       12 (Some 100000)
     = \<lparr>mr_model = ''popularity'', mr_recall_at_k = 1, mr_map_at_k = 1, mr_users = 1\<rparr>"
  unfolding evaluate_recs_def Let_def
  by (simp add: unique_of_def unique_rows_def group_rows_def inner_join_def insert_commute
        recall_at_k_def ap_at_k_def py_prefix_def fcard_finsert_if fcard_fempty)

text \<open>
  C1 (amended). Let \<open>unique_users\<close> be the distinct users of the recommendation frame in
  the order in which the engine returns them from \<open>unique()\<close>, whatever that order is. The
  rows \<open>evaluate_recs\<close> scores are the rows of the recommendation frame whose user is
  among the first \<open>max_users\<close> of \<open>unique_users\<close> and has at least one row in the test
  snapshot. \<open>users\<close> is their number, and the two averaged metrics are the means of
  \<open>recall_at_k\<close> and \<open>ap_at_k\<close> over exactly these rows (\<open>0.0\<close> when there are none),
  each against the article ids of the user's test rows, a set that is never empty. A user of
  the recommendation frame without test rows is never scored and never counted, whatever the
  cap keeps. The instance that follows the theorem has a cap that binds, \<open>max_users = 1\<close>:
  the one user kept is \<open>u1\<close> for one order of \<open>unique()\<close> and \<open>u2\<close> for the other,
  so one row is scored in the first run and none in the second.
\<close>

theorem evaluate_recs_scores_joined_rows:
  "unique_of (map fst recs_df) unique_users \<longrightarrow>
   mr_users (evaluate_recs unique_users model_name recs_df test k max_users)
     = length (evaluated_rows unique_users recs_df test max_users)
   \<and> mr_recall_at_k (evaluate_recs unique_users model_name recs_df test k max_users)
     = (if evaluated_rows unique_users recs_df test max_users \<noteq> []
        then (\<Sum>row\<leftarrow>evaluated_rows unique_users recs_df test max_users.
                recall_at_k (recs_list row) (truth_of test (fst row)) k)
             / real (length (evaluated_rows unique_users recs_df test max_users))
        else 0)
   \<and> mr_map_at_k (evaluate_recs unique_users model_name recs_df test k max_users)
     = (if evaluated_rows unique_users recs_df test max_users \<noteq> []
        then (\<Sum>row\<leftarrow>evaluated_rows unique_users recs_df test max_users.
                ap_at_k (recs_list row) (truth_of test (fst row)) k)
             / real (length (evaluated_rows unique_users recs_df test max_users))
        else 0)
   \<and> (\<forall>row \<in> set (evaluated_rows unique_users recs_df test max_users).
        truth_of test (fst row) \<noteq> {||})
   \<and> (\<forall>row \<in> set recs_df.
        fst row \<notin> customer_id ` set test \<longrightarrow>
        row \<notin> set (evaluated_rows unique_users recs_df test max_users))"
proof
  assume u: "unique_of (map fst recs_df) unique_users"
  then have d: "distinct unique_users" by (simp add: unique_of_def)
  have nonempty: "\<forall>row \<in> set (evaluated_rows unique_users recs_df test max_users).
                    truth_of test (fst row) \<noteq> {||}"
  proof
    fix row assume "row \<in> set (evaluated_rows unique_users recs_df test max_users)"
    then obtain r where "r \<in> set test" "customer_id r = fst row"
      by (auto simp: evaluated_rows_def)
    then have "article_id r |\<in>| truth_of test (fst row)"
      by (auto simp: truth_of_def fset_of_list.rep_eq)
    then show "truth_of test (fst row) \<noteq> {||}" by auto
  qed
  have dropped: "\<forall>row \<in> set recs_df.
        fst row \<notin> customer_id ` set test \<longrightarrow>
        row \<notin> set (evaluated_rows unique_users recs_df test max_users)"
    by (simp add: evaluated_rows_def)
  show "mr_users (evaluate_recs unique_users model_name recs_df test k max_users)
     = length (evaluated_rows unique_users recs_df test max_users)
   \<and> mr_recall_at_k (evaluate_recs unique_users model_name recs_df test k max_users)
     = (if evaluated_rows unique_users recs_df test max_users \<noteq> []
        then (\<Sum>row\<leftarrow>evaluated_rows unique_users recs_df test max_users.
                recall_at_k (recs_list row) (truth_of test (fst row)) k)
             / real (length (evaluated_rows unique_users recs_df test max_users))
        else 0)
   \<and> mr_map_at_k (evaluate_recs unique_users model_name recs_df test k max_users)
     = (if evaluated_rows unique_users recs_df test max_users \<noteq> []
        then (\<Sum>row\<leftarrow>evaluated_rows unique_users recs_df test max_users.
                ap_at_k (recs_list row) (truth_of test (fst row)) k)
             / real (length (evaluated_rows unique_users recs_df test max_users))
        else 0)
   \<and> (\<forall>row \<in> set (evaluated_rows unique_users recs_df test max_users).
        truth_of test (fst row) \<noteq> {||})
   \<and> (\<forall>row \<in> set recs_df.
        fst row \<notin> customer_id ` set test \<longrightarrow>
        row \<notin> set (evaluated_rows unique_users recs_df test max_users))"
    using nonempty dropped
    by (simp add: evaluate_recs_rows [OF d, of model_name recs_df test k max_users] Let_def)
qed

theorem evaluate_recs_scores_joined_rows_witness:
  "unique_of (map fst [(''u1'', Some [''a'']), (''u2'', Some [''b''])]) [''u1'', ''u2'']
   \<and> unique_of (map fst [(''u1'', Some [''a'']), (''u2'', Some [''b''])]) [''u2'', ''u1'']
   \<and> (''u2'', Some [''b'']) \<in> set [(''u1'', Some [''a'']), (''u2'', Some [''b''])]
   \<and> ''u2'' \<notin> customer_id `
         set [\<lparr>customer_id = ''u1'', article_id = ''a'', freq = 1, last_seen = 0, implicit_score = 1\<rparr>]
   \<and> (''u2'', Some [''b'']) \<notin> set (evaluated_rows [''u2'', ''u1'']
         [(''u1'', Some [''a'']), (''u2'', Some [''b''])]
         [\<lparr>customer_id = ''u1'', article_id = ''a'', freq = 1, last_seen = 0, implicit_score = 1\<rparr>]
         (Some 1))
   \<and> mr_users (evaluate_recs [''u1'', ''u2''] ''popularity''
         [(''u1'', Some [''a'']), (''u2'', Some [''b''])]
         [\<lparr>customer_id = ''u1'', article_id = ''a'', freq = 1, last_seen = 0, implicit_score = 1\<rparr>]
         12 (Some 1)) = 1
   \<and> mr_users (evaluate_recs [''u2'', ''u1''] ''popularity''
         [(''u1'', Some [''a'']), (''u2'', Some [''b''])]
         [\<lparr>customer_id = ''u1'', article_id = ''a'', freq = 1, last_seen = 0, implicit_score = 1\<rparr>]
         12 (Some 1)) = 0"
proof -
  let ?recs = "[(''u1'', Some [''a'']), (''u2'', Some [''b''])]"
  let ?test = "[\<lparr>customer_id = ''u1'', article_id = ''a'', freq = 1, last_seen = 0, implicit_score = 1\<rparr>]"
  have h1: "unique_of (map fst ?recs) [''u1'', ''u2'']"
    and h2: "unique_of (map fst ?recs) [''u2'', ''u1'']"
    by (auto simp: unique_of_def)
  have e1: "length (evaluated_rows [''u1'', ''u2''] ?recs ?test (Some 1)) = 1"
    and e2: "length (evaluated_rows [''u2'', ''u1''] ?recs ?test (Some 1)) = 0"
    by (simp_all add: evaluated_rows_def capped_users_def)
  from evaluate_recs_scores_joined_rows [of ?recs "[''u1'', ''u2'']" "''popularity''" ?test 12 "Some 1"] h1 e1
  have r1: "mr_users (evaluate_recs [''u1'', ''u2''] ''popularity'' ?recs ?test 12 (Some 1)) = 1"
    by simp
  from evaluate_recs_scores_joined_rows [of ?recs "[''u2'', ''u1'']" "''popularity''" ?test 12 "Some 1"] h2 e2
  have r2: "mr_users (evaluate_recs [''u2'', ''u1''] ''popularity'' ?recs ?test 12 (Some 1)) = 0"
    and d2: "\<forall>row \<in> set ?recs. fst row \<notin> customer_id ` set ?test \<longrightarrow>
               row \<notin> set (evaluated_rows [''u2'', ''u1''] ?recs ?test (Some 1))"
    by simp_all
  from d2 have "(''u2'', Some [''b'']) \<notin> set (evaluated_rows [''u2'', ''u1''] ?recs ?test (Some 1))"
    by simp
  with h1 h2 r1 r2 show ?thesis by simp
qed

section \<open>Claims on the recommenders\<close>

text \<open>
  C7 (the code departs from the claim at \<open>K = 0\<close>). The claim: for every user and both
  recommenders, the list returned has length at most \<open>K\<close> and holds no item of the user's
  train rows. For \<open>K \<ge> 1\<close> this holds of both (\<open>build_popularity_recs_ok\<close>,
  \<open>build_cooccurrence_recs_ok\<close>), and the co-occurrence recommender, which cuts with
  \<open>head(k)\<close>, also keeps the bound at \<open>K = 0\<close>. The loop of \<open>recs_for_seen\<close> tests
  \<open>len(out) == k\<close> only after it has appended: with \<open>k = 0\<close> and a first popular item the
  user has not seen, the length is already \<open>1\<close> at the first test and the loop never stops
  early. Below, \<open>b\<close> is the most popular item; user \<open>u1\<close> has not seen it and gets a
  list of length \<open>1\<close> for \<open>K = 0\<close>.
\<close>

theorem build_popularity_recs_k0:
  "build_popularity_recs
     [\<lparr>customer_id = ''u1'', article_id = ''a'', freq = 1, last_seen = 0, implicit_score = 1\<rparr>,
      \<lparr>customer_id = ''u2'', article_id = ''b'', freq = 1, last_seen = 0, implicit_score = 1\<rparr>,
      \<lparr>customer_id = ''u3'', article_id = ''b'', freq = 1, last_seen = 0, implicit_score = 1\<rparr>]
     0 (Some 100000)
   = [(''u1'', [''b'']), (''u2'', []), (''u3'', [])]"
  unfolding build_popularity_recs_def top_items_of_def recs_for_seen_def Let_def
  by (simp add: unique_rows_def group_rows_def group_head_def group_len_def inner_join_def
        left_join_def user_seen_def base_frame_def)

text \<open>
  C8 (as stated, refuted). The claim has the edges of an item ordered by count descending
  with ties broken by \<open>neighbor_id\<close> ascending. The code sorts on
  \<open>["item", "cnt"]\<close> only. One user with the items \<open>a\<close>, \<open>c\<close>, \<open>b\<close>, in this row order
  and with equal scores, gives item \<open>a\<close> the neighbours \<open>c\<close> and \<open>b\<close>, both with count
  \<open>1\<close>, in the order \<open>c\<close>, \<open>b\<close>.
\<close>

theorem build_item_neighbors_tie_counterexample:
  "filter (\<lambda>row. fst row = ''a'')
     (build_item_neighbors
        [\<lparr>customer_id = ''u'', article_id = ''a'', freq = 1, last_seen = 0, implicit_score = 1\<rparr>,
         \<lparr>customer_id = ''u'', article_id = ''c'', freq = 1, last_seen = 0, implicit_score = 1\<rparr>,
         \<lparr>customer_id = ''u'', article_id = ''b'', freq = 1, last_seen = 0, implicit_score = 1\<rparr>]
        10 50)
   = [(''a'', Some \<lparr>item = ''a'', neighbor = ''c'', cnt = 1\<rparr>),
      (''a'', Some \<lparr>item = ''a'', neighbor = ''b'', cnt = 1\<rparr>)]"
  unfolding build_item_neighbors_def pair_counts_def seeds_of_def seed_rows_def Let_def
  by (simp add: unique_rows_def group_rows_def group_head_def group_len_def inner_join_def)

text \<open>
  C8 (amended). For \<open>neighbors_per_item \<ge> 1\<close>: in the frame \<open>build_item_neighbors\<close>
  returns, the rows of every item number at most \<open>neighbors_per_item\<close>, every row is an
  edge of its item (no null row) with \<open>item \<noteq> neighbor\<close>, and the edges of an item are
  ordered by count descending. No order among edges of equal count is claimed, and nothing
  is claimed for \<open>neighbors_per_item = 0\<close>, where \<open>head\<close> leaves one null row per item
  (\<open>group_head_zero\<close>).
\<close>

theorem build_item_neighbors_invariant:
  "1 \<le> m \<longrightarrow>
     length (filter (\<lambda>row. fst row = i) (build_item_neighbors train s m)) \<le> m
     \<and> sorted_wrt (\<lambda>a b. cnt b \<le> cnt a) (rows_of i (build_item_neighbors train s m))
     \<and> (\<forall>row \<in> set (build_item_neighbors train s m).
          \<exists>e. snd row = Some e \<and> item e = fst row \<and> item e \<noteq> neighbor e)"
proof
  assume "1 \<le> m"
  then have m: "0 < m" by simp
  have "length (filter (\<lambda>row. fst row = i) (build_item_neighbors train s m)) \<le> m"
    by (rule build_item_neighbors_rows_of_item [OF m])
  moreover have "sorted_wrt (\<lambda>a b. cnt b \<le> cnt a) (rows_of i (build_item_neighbors train s m))"
    using build_item_neighbors_top [OF m, of i train s] by (simp add: top_by_def)
  moreover have "\<forall>row \<in> set (build_item_neighbors train s m).
          \<exists>e. snd row = Some e \<and> item e = fst row \<and> item e \<noteq> neighbor e"
    using build_item_neighbors_edge [OF m] by blast
  ultimately show "length (filter (\<lambda>row. fst row = i) (build_item_neighbors train s m)) \<le> m
     \<and> sorted_wrt (\<lambda>a b. cnt b \<le> cnt a) (rows_of i (build_item_neighbors train s m))
     \<and> (\<forall>row \<in> set (build_item_neighbors train s m).
          \<exists>e. snd row = Some e \<and> item e = fst row \<and> item e \<noteq> neighbor e)"
    by blast
qed

theorem build_item_neighbors_invariant_witness:
  "(1::nat) \<le> 50
   \<and> (''a'', Some \<lparr>item = ''a'', neighbor = ''c'', cnt = 1\<rparr>) \<in> set (build_item_neighbors
        [\<lparr>customer_id = ''u'', article_id = ''a'', freq = 1, last_seen = 0, implicit_score = 1\<rparr>,
         \<lparr>customer_id = ''u'', article_id = ''c'', freq = 1, last_seen = 0, implicit_score = 1\<rparr>]
        10 50)
   \<and> (\<exists>e. snd (''a'', Some \<lparr>item = ''a'', neighbor = ''c'', cnt = 1\<rparr>) = Some e
          \<and> item e = fst (''a'', Some \<lparr>item = ''a'', neighbor = ''c'', cnt = 1\<rparr>)
          \<and> item e \<noteq> neighbor e)
   \<and> length (filter (\<lambda>row. fst row = ''a'') (build_item_neighbors
        [\<lparr>customer_id = ''u'', article_id = ''a'', freq = 1, last_seen = 0, implicit_score = 1\<rparr>,
         \<lparr>customer_id = ''u'', article_id = ''c'', freq = 1, last_seen = 0, implicit_score = 1\<rparr>]
        10 50)) \<le> 50"
proof -
  let ?T = "[\<lparr>customer_id = ''u'', article_id = ''a'', freq = 1, last_seen = 0, implicit_score = 1\<rparr>,
         \<lparr>customer_id = ''u'', article_id = ''c'', freq = 1, last_seen = 0, implicit_score = 1\<rparr>]"
  have h: "(1::nat) \<le> 50" by simp
  have m: "(''a'', Some \<lparr>item = ''a'', neighbor = ''c'', cnt = 1\<rparr>) \<in> set (build_item_neighbors ?T 10 50)"
    unfolding build_item_neighbors_def pair_counts_def seeds_of_def seed_rows_def Let_def
    by (simp add: unique_rows_def group_rows_def group_head_def group_len_def inner_join_def)
  from build_item_neighbors_invariant [of 50 "''a''" ?T 10] h
  have "length (filter (\<lambda>row. fst row = ''a'') (build_item_neighbors ?T 10 50)) \<le> 50"
    and "\<forall>row \<in> set (build_item_neighbors ?T 10 50).
          \<exists>e. snd row = Some e \<and> item e = fst row \<and> item e \<noteq> neighbor e"
    by blast+
  with h m show ?thesis by blast
qed

text \<open>
  C2 (as stated, refuted). The claim has every top-N selection break ties by the id,
  ascending, so that the input data fix the selection. The code names no second sort key in
  any of the three places. With two rows of equal score, the one seed taken is the row that
  comes first: \<open>b\<close> when the frame lists \<open>b\<close> before \<open>a\<close>, and \<open>a\<close> when it lists
  \<open>a\<close> first, for the same set of rows. With \<open>neighbors_per_item = 1\<close>, item \<open>a\<close> keeps
  the neighbour \<open>c\<close> although \<open>b\<close> has the same count and the smaller id. The popularity
  pool lists \<open>b\<close> before \<open>a\<close> at equal counts.
\<close>

theorem top_n_tie_break_counterexample:
  "seeds_of
        [\<lparr>customer_id = ''u'', article_id = ''b'', freq = 1, last_seen = 0, implicit_score = 1\<rparr>,
         \<lparr>customer_id = ''u'', article_id = ''a'', freq = 1, last_seen = 0, implicit_score = 1\<rparr>] 1
     = [(''u'', Some ''b'')]
   \<and> seeds_of
        [\<lparr>customer_id = ''u'', article_id = ''a'', freq = 1, last_seen = 0, implicit_score = 1\<rparr>,
         \<lparr>customer_id = ''u'', article_id = ''b'', freq = 1, last_seen = 0, implicit_score = 1\<rparr>] 1
     = [(''u'', Some ''a'')]
   \<and> build_item_neighbors
        [\<lparr>customer_id = ''u'', article_id = ''a'', freq = 1, last_seen = 0, implicit_score = 1\<rparr>,
         \<lparr>customer_id = ''u'', article_id = ''c'', freq = 1, last_seen = 0, implicit_score = 1\<rparr>,
         \<lparr>customer_id = ''u'', article_id = ''b'', freq = 1, last_seen = 0, implicit_score = 1\<rparr>]
        10 1
     = [(''a'', Some \<lparr>item = ''a'', neighbor = ''c'', cnt = 1\<rparr>),
        (''b'', Some \<lparr>item = ''b'', neighbor = ''a'', cnt = 1\<rparr>),
        (''c'', Some \<lparr>item = ''c'', neighbor = ''a'', cnt = 1\<rparr>)]
   \<and> top_items_of
        [\<lparr>customer_id = ''u1'', article_id = ''b'', freq = 1, last_seen = 0, implicit_score = 1\<rparr>,
         \<lparr>customer_id = ''u2'', article_id = ''a'', freq = 1, last_seen = 0, implicit_score = 1\<rparr>]
     = [''b'', ''a'']"
  unfolding build_item_neighbors_def pair_counts_def seeds_of_def seed_rows_def top_items_of_def Let_def
  by (simp add: unique_rows_def group_rows_def group_head_def group_len_def inner_join_def)

text \<open>
  C2 (amended). Each of the three selections is a top-N selection by its score alone: the
  seed rows of a user by \<open>implicit_score\<close> for \<open>seed_items_per_user \<ge> 1\<close>, the edges of an
  item by \<open>cnt\<close> for \<open>neighbors_per_item \<ge> 1\<close>, the popularity pool of \<open>5000\<close> by the
  number of train rows of the article. The selection holds no null row, is in descending
  order of the score, takes \<open>N\<close> rows or all there are, and leaves out no row of higher
  score than one it takes. No secondary key is applied, and nothing is claimed about rows
  of equal score, nor for \<open>N = 0\<close>, where \<open>head\<close> leaves one null row per group.
\<close>

theorem top_n_orders_by_score_only:
  "(1 \<le> n \<longrightarrow>
      (\<forall>row \<in> set (seed_rows train n). snd row \<noteq> None)
      \<and> top_by implicit_score n (rows_of u (seed_rows train n))
           (filter (\<lambda>r. customer_id r = u) train))
   \<and> (1 \<le> m \<longrightarrow>
      (\<forall>row \<in> set (build_item_neighbors train n m). snd row \<noteq> None)
      \<and> top_by cnt m (rows_of i (build_item_neighbors train n m))
           (map (\<lambda>((i, n), c). \<lparr>item = i, neighbor = n, cnt = c\<rparr>)
              (filter (\<lambda>((i', n'), c). i' = i) (pair_counts (seeds_of train n)))))
   \<and> top_by (item_popularity train) 5000 (top_items_of train) (unique_rows (map article_id train))"
proof -
  have seeds: "(\<forall>row \<in> set (seed_rows train n). snd row \<noteq> None)
      \<and> top_by implicit_score n (rows_of u (seed_rows train n))
           (filter (\<lambda>r. customer_id r = u) train)" if "1 \<le> n"
  proof -
    from that have p: "0 < n" by simp
    have "\<forall>row \<in> set (seed_rows train n). snd row \<noteq> None"
      by (auto simp: seed_rows_pos [OF p])
    with seed_rows_top [OF p, of u train] show ?thesis by blast
  qed
  have edges: "(\<forall>row \<in> set (build_item_neighbors train n m). snd row \<noteq> None)
      \<and> top_by cnt m (rows_of i (build_item_neighbors train n m))
           (map (\<lambda>((i, n), c). \<lparr>item = i, neighbor = n, cnt = c\<rparr>)
              (filter (\<lambda>((i', n'), c). i' = i) (pair_counts (seeds_of train n))))" if "1 \<le> m"
  proof -
    from that have p: "0 < m" by simp
    have "\<forall>row \<in> set (build_item_neighbors train n m). snd row \<noteq> None"
      using build_item_neighbors_edge [OF p] by fastforce
    with build_item_neighbors_top [OF p, of i train n] show ?thesis by blast
  qed
  from seeds edges top_items_of_top [of train] show ?thesis by blast
qed

theorem top_n_orders_by_score_only_witness:
  "(1::nat) \<le> 2
   \<and> \<lparr>customer_id = ''u'', article_id = ''c'', freq = 1, last_seen = 0, implicit_score = 2\<rparr>
     \<in> set (rows_of ''u'' (seed_rows
        [\<lparr>customer_id = ''u'', article_id = ''a'', freq = 1, last_seen = 0, implicit_score = 1\<rparr>,
         \<lparr>customer_id = ''u'', article_id = ''b'', freq = 1, last_seen = 0, implicit_score = 3\<rparr>,
         \<lparr>customer_id = ''u'', article_id = ''c'', freq = 1, last_seen = 0, implicit_score = 2\<rparr>] 2))
   \<and> \<lparr>customer_id = ''u'', article_id = ''a'', freq = 1, last_seen = 0, implicit_score = 1\<rparr>
     \<in># mset (filter (\<lambda>r. customer_id r = ''u'')
        [\<lparr>customer_id = ''u'', article_id = ''a'', freq = 1, last_seen = 0, implicit_score = 1\<rparr>,
         \<lparr>customer_id = ''u'', article_id = ''b'', freq = 1, last_seen = 0, implicit_score = 3\<rparr>,
         \<lparr>customer_id = ''u'', article_id = ''c'', freq = 1, last_seen = 0, implicit_score = 2\<rparr>])
       - mset (rows_of ''u'' (seed_rows
        [\<lparr>customer_id = ''u'', article_id = ''a'', freq = 1, last_seen = 0, implicit_score = 1\<rparr>,
         \<lparr>customer_id = ''u'', article_id = ''b'', freq = 1, last_seen = 0, implicit_score = 3\<rparr>,
         \<lparr>customer_id = ''u'', article_id = ''c'', freq = 1, last_seen = 0, implicit_score = 2\<rparr>] 2))
   \<and> implicit_score \<lparr>customer_id = ''u'', article_id = ''a'', freq = 1, last_seen = 0, implicit_score = 1\<rparr>
       \<le> implicit_score \<lparr>customer_id = ''u'', article_id = ''c'', freq = 1, last_seen = 0, implicit_score = 2\<rparr>"
proof -
  let ?T = "[\<lparr>customer_id = ''u'', article_id = ''a'', freq = 1, last_seen = 0, implicit_score = 1\<rparr>,
         \<lparr>customer_id = ''u'', article_id = ''b'', freq = 1, last_seen = 0, implicit_score = 3\<rparr>,
         \<lparr>customer_id = ''u'', article_id = ''c'', freq = 1, last_seen = 0, implicit_score = 2\<rparr>]"
  have h: "(1::nat) \<le> 2" by simp
  have sel: "rows_of ''u'' (seed_rows ?T 2) =
       [\<lparr>customer_id = ''u'', article_id = ''b'', freq = 1, last_seen = 0, implicit_score = 3\<rparr>,
        \<lparr>customer_id = ''u'', article_id = ''c'', freq = 1, last_seen = 0, implicit_score = 2\<rparr>]"
    unfolding seed_rows_def rows_of_def kept_rows_def
    by (simp add: unique_rows_def group_rows_def group_head_def)
  have a: "\<lparr>customer_id = ''u'', article_id = ''c'', freq = 1, last_seen = 0, implicit_score = 2\<rparr>
     \<in> set (rows_of ''u'' (seed_rows ?T 2))"
    unfolding sel by simp
  have b: "\<lparr>customer_id = ''u'', article_id = ''a'', freq = 1, last_seen = 0, implicit_score = 1\<rparr>
     \<in># mset (filter (\<lambda>r. customer_id r = ''u'') ?T)
       - mset (rows_of ''u'' (seed_rows ?T 2))"
    unfolding sel by simp
  from top_n_orders_by_score_only [of 2 ?T "''u''"] h
  have "\<forall>x \<in># mset (filter (\<lambda>r. customer_id r = ''u'') ?T)
                 - mset (rows_of ''u'' (seed_rows ?T 2)).
          \<forall>y \<in> set (rows_of ''u'' (seed_rows ?T 2)).
            implicit_score x \<le> implicit_score y"
    unfolding top_by_def by blast
  with h a b show ?thesis by blast
qed

text \<open>
  C3 (as stated, refuted). The claim has the co-occurrence recommender return an entry with
  an empty list for a user without seeds or without neighbour edges. Below, the neighbour
  frame is the one \<open>build_item_neighbors\<close> builds from the train frame: the edges
  \<open>a \<rightarrow> b\<close> and \<open>b \<rightarrow> a\<close>. User \<open>w\<close> has the one seed \<open>q\<close>, which has no neighbour
  edge, and every candidate of user \<open>v\<close> is an item \<open>v\<close> has seen; the frame returned has
  the one row of user \<open>u\<close>, and no row for \<open>v\<close> or \<open>w\<close>. A user without train rows is
  not among the users of the train frame and has no row either.
\<close>

theorem build_cooccurrence_recs_absent_counterexample:
  "build_item_neighbors
       [\<lparr>customer_id = ''u'', article_id = ''a'', freq = 1, last_seen = 0, implicit_score = 1\<rparr>,
        \<lparr>customer_id = ''v'', article_id = ''a'', freq = 1, last_seen = 0, implicit_score = 1\<rparr>,
        \<lparr>customer_id = ''v'', article_id = ''b'', freq = 1, last_seen = 0, implicit_score = 1\<rparr>,
        \<lparr>customer_id = ''w'', article_id = ''q'', freq = 1, last_seen = 0, implicit_score = 1\<rparr>]
       10 50
     = [(''a'', Some \<lparr>item = ''a'', neighbor = ''b'', cnt = 1\<rparr>),
        (''b'', Some \<lparr>item = ''b'', neighbor = ''a'', cnt = 1\<rparr>)]
   \<and> build_cooccurrence_recs
     [\<lparr>customer_id = ''u'', article_id = ''a'', freq = 1, last_seen = 0, implicit_score = 1\<rparr>,
      \<lparr>customer_id = ''v'', article_id = ''a'', freq = 1, last_seen = 0, implicit_score = 1\<rparr>,
      \<lparr>customer_id = ''v'', article_id = ''b'', freq = 1, last_seen = 0, implicit_score = 1\<rparr>,
      \<lparr>customer_id = ''w'', article_id = ''q'', freq = 1, last_seen = 0, implicit_score = 1\<rparr>]
     [\<lparr>item = ''a'', neighbor = ''b'', cnt = 1\<rparr>, \<lparr>item = ''b'', neighbor = ''a'', cnt = 1\<rparr>]
     12 10 (Some 100000)
   = [(''u'', [''b''])]"
  unfolding build_cooccurrence_recs_def scored_frame_def build_item_neighbors_def pair_counts_def
    seeds_of_def seed_rows_def Let_def
  by (simp add: unique_rows_def group_rows_def group_head_def group_len_def inner_join_def
        left_join_def user_seen_def base_frame_def)

text \<open>
  C3 (amended). For every user with no train rows, the co-occurrence recommender raises no
  error (it has no error branch) and returns no entry for that user: an absent user, not
  an entry with an empty sequence. And the frame it returns is not empty by default:
  whenever the \<open>max_users\<close> cap leaves out no user, a user one of whose seed items has a
  neighbour edge to an item that is not among the user's train items has an entry, with a
  list that is not empty when \<open>K \<ge> 1\<close>.
\<close>

theorem build_cooccurrence_recs_entries:
  "(u \<notin> customer_id ` set train \<longrightarrow>
      u \<notin> fst ` set (build_cooccurrence_recs train neighbors_df k seed_items_per_user max_users))
   \<and> (cap_keeps_all train max_users \<longrightarrow> has_candidate train neighbors_df seed_items_per_user v \<longrightarrow>
      (\<exists>recs. (v, recs) \<in> set (build_cooccurrence_recs train neighbors_df k seed_items_per_user max_users)
          \<and> (1 \<le> k \<longrightarrow> recs \<noteq> [])))"
proof -
  have "u \<notin> customer_id ` set train \<longrightarrow>
      u \<notin> fst ` set (build_cooccurrence_recs train neighbors_df k seed_items_per_user max_users)"
    using build_cooccurrence_recs_ok(3) [of u _ train neighbors_df k seed_items_per_user max_users]
    by auto
  moreover have "cap_keeps_all train max_users \<longrightarrow> has_candidate train neighbors_df seed_items_per_user v \<longrightarrow>
      (\<exists>recs. (v, recs) \<in> set (build_cooccurrence_recs train neighbors_df k seed_items_per_user max_users)
          \<and> (1 \<le> k \<longrightarrow> recs \<noteq> []))"
    using build_cooccurrence_recs_serves [of train max_users neighbors_df seed_items_per_user v k]
    by blast
  ultimately show ?thesis by blast
qed

theorem build_cooccurrence_recs_entries_witness:
  "''x'' \<notin> customer_id ` set
     [\<lparr>customer_id = ''u'', article_id = ''a'', freq = 1, last_seen = 0, implicit_score = 1\<rparr>,
      \<lparr>customer_id = ''v'', article_id = ''a'', freq = 1, last_seen = 0, implicit_score = 1\<rparr>,
      \<lparr>customer_id = ''v'', article_id = ''b'', freq = 1, last_seen = 0, implicit_score = 1\<rparr>,
      \<lparr>customer_id = ''w'', article_id = ''q'', freq = 1, last_seen = 0, implicit_score = 1\<rparr>]
   \<and> cap_keeps_all
     [\<lparr>customer_id = ''u'', article_id = ''a'', freq = 1, last_seen = 0, implicit_score = 1\<rparr>,
      \<lparr>customer_id = ''v'', article_id = ''a'', freq = 1, last_seen = 0, implicit_score = 1\<rparr>,
      \<lparr>customer_id = ''v'', article_id = ''b'', freq = 1, last_seen = 0, implicit_score = 1\<rparr>,
      \<lparr>customer_id = ''w'', article_id = ''q'', freq = 1, last_seen = 0, implicit_score = 1\<rparr>]
     (Some 100000)
   \<and> has_candidate
     [\<lparr>customer_id = ''u'', article_id = ''a'', freq = 1, last_seen = 0, implicit_score = 1\<rparr>,
      \<lparr>customer_id = ''v'', article_id = ''a'', freq = 1, last_seen = 0, implicit_score = 1\<rparr>,
      \<lparr>customer_id = ''v'', article_id = ''b'', freq = 1, last_seen = 0, implicit_score = 1\<rparr>,
      \<lparr>customer_id = ''w'', article_id = ''q'', freq = 1, last_seen = 0, implicit_score = 1\<rparr>]
     [\<lparr>item = ''a'', neighbor = ''b'', cnt = 1\<rparr>, \<lparr>item = ''b'', neighbor = ''a'', cnt = 1\<rparr>]
     10 ''u''
   \<and> ''x'' \<notin> fst ` set (build_cooccurrence_recs
     [\<lparr>customer_id = ''u'', article_id = ''a'', freq = 1, last_seen = 0, implicit_score = 1\<rparr>,
      \<lparr>customer_id = ''v'', article_id = ''a'', freq = 1, last_seen = 0, implicit_score = 1\<rparr>,
      \<lparr>customer_id = ''v'', article_id = ''b'', freq = 1, last_seen = 0, implicit_score = 1\<rparr>,
      \<lparr>customer_id = ''w'', article_id = ''q'', freq = 1, last_seen = 0, implicit_score = 1\<rparr>]
     [\<lparr>item = ''a'', neighbor = ''b'', cnt = 1\<rparr>, \<lparr>item = ''b'', neighbor = ''a'', cnt = 1\<rparr>]
     12 10 (Some 100000))
   \<and> (\<exists>recs. (''u'', recs) \<in> set (build_cooccurrence_recs
     [\<lparr>customer_id = ''u'', article_id = ''a'', freq = 1, last_seen = 0, implicit_score = 1\<rparr>,
      \<lparr>customer_id = ''v'', article_id = ''a'', freq = 1, last_seen = 0, implicit_score = 1\<rparr>,
      \<lparr>customer_id = ''v'', article_id = ''b'', freq = 1, last_seen = 0, implicit_score = 1\<rparr>,
      \<lparr>customer_id = ''w'', article_id = ''q'', freq = 1, last_seen = 0, implicit_score = 1\<rparr>]
     [\<lparr>item = ''a'', neighbor = ''b'', cnt = 1\<rparr>, \<lparr>item = ''b'', neighbor = ''a'', cnt = 1\<rparr>]
     12 10 (Some 100000)) \<and> recs \<noteq> [])"
proof -
  let ?T = "[\<lparr>customer_id = ''u'', article_id = ''a'', freq = 1, last_seen = 0, implicit_score = 1\<rparr>,
      \<lparr>customer_id = ''v'', article_id = ''a'', freq = 1, last_seen = 0, implicit_score = 1\<rparr>,
      \<lparr>customer_id = ''v'', article_id = ''b'', freq = 1, last_seen = 0, implicit_score = 1\<rparr>,
      \<lparr>customer_id = ''w'', article_id = ''q'', freq = 1, last_seen = 0, implicit_score = 1\<rparr>]"
  let ?E = "[\<lparr>item = ''a'', neighbor = ''b'', cnt = 1\<rparr>, \<lparr>item = ''b'', neighbor = ''a'', cnt = 1\<rparr>]"
  have h1: "''x'' \<notin> customer_id ` set ?T"
    by simp
  have h2: "cap_keeps_all ?T (Some 100000)"
    by (simp add: cap_keeps_all_def unique_rows_def)
  have seeds: "seeds_of ?T 10 = [(''u'', Some ''a''), (''v'', Some ''a''), (''v'', Some ''b''), (''w'', Some ''q'')]"
    unfolding seeds_of_def seed_rows_def
    by (simp add: unique_rows_def group_rows_def group_head_def)
  have h3: "has_candidate ?T ?E 10 ''u''"
    unfolding has_candidate_def seeds by simp
  have k: "(1::nat) \<le> 12" by simp
  from build_cooccurrence_recs_entries [of "''x''" ?T ?E 12 10 "Some 100000" "''u''"] h1 h2 h3 k
  have "''x'' \<notin> fst ` set (build_cooccurrence_recs ?T ?E 12 10 (Some 100000))"
    and "\<exists>recs. (''u'', recs) \<in> set (build_cooccurrence_recs ?T ?E 12 10 (Some 100000)) \<and> recs \<noteq> []"
    by blast+
  with h1 h2 h3 show ?thesis by blast
qed

section \<open>Claim on the implicit score\<close>

lemma aggregate_one:
  "aggregate_events [\<lparr>t_dat = Some 0, tx_customer_id = Some ''u'', tx_article_id = Some ''a''\<rparr>]
     = [((''u'', ''a''), 1, 0)]"
  unfolding aggregate_events_def Let_def
  by (simp add: group_rows_def unique_rows_def)

text \<open>
  C9 (as stated, refuted). The claim has the score computed against a reference date
  supplied to the run and never against the system clock. \<open>main\<close> takes no such
  parameter and computes \<open>days_since_last\<close> from \<open>date.today()\<close>. One event, dated day
  \<open>0\<close>, scored on day \<open>10\<close> and on day \<open>11\<close>: the same raw events and the same
  configuration give two different scores.
\<close>

theorem build_interactions_clock_counterexample:
  "map implicit_score (build_interactions 10
      [\<lparr>t_dat = Some 0, tx_customer_id = Some ''u'', tx_article_id = Some ''a''\<rparr>])
   \<noteq> map implicit_score (build_interactions 11
      [\<lparr>t_dat = Some 0, tx_customer_id = Some ''u'', tx_article_id = Some ''a''\<rparr>])"
proof -
  have "ln (2::real) \<noteq> 0" by simp
  moreover have "exp (- (10::real) / 30) \<noteq> exp (- 11 / 30)" by simp
  ultimately show ?thesis
    unfolding build_interactions_def aggregate_one
    by (simp add: score_row_def half_life_days_def)
qed

text \<open>
  C9 (amended). The implicit score is a function of the raw events, of the half-life of
  \<open>30\<close> days fixed in the code, and of the date the system clock gives when \<open>main\<close> runs.
  The rows written are the aggregated pairs, each scored
  \<open>ln(1 + freq) * exp(-(today - last_seen) / 30)\<close>. A run \<open>d\<close> days later leaves every
  other column as it was and multiplies every score by \<open>exp(-d / 30)\<close>; runs on the same
  calendar day agree.
\<close>

theorem implicit_score_follows_clock:
  "mset (build_interactions today txs) = image_mset (score_row today) (mset (aggregate_events txs))
   \<and> implicit_score (score_row today ((c, a), f, ls))
       = ln (1 + real f) * exp (- real_of_int (today - ls) / 30)
   \<and> score_row (today + d) ((c, a), f, ls)
       = (score_row today ((c, a), f, ls))
           \<lparr>implicit_score := implicit_score (score_row today ((c, a), f, ls)) * exp (- real_of_int d / 30)\<rparr>"
proof -
  have m: "mset (build_interactions today txs)
             = image_mset (score_row today) (mset (aggregate_events txs))"
    by (simp add: build_interactions_def)
  have v: "implicit_score (score_row today ((c, a), f, ls))
             = ln (1 + real f) * exp (- real_of_int (today - ls) / 30)"
    by (simp only: score_row_def half_life_days_def Let_def prod.case interaction.simps)
  have "- real_of_int (today + d - ls) / 30 = - real_of_int (today - ls) / 30 + - real_of_int d / 30"
    by simp
  then have e: "exp (- real_of_int (today + d - ls) / 30)
                  = exp (- real_of_int (today - ls) / 30) * exp (- real_of_int d / 30)"
    by (simp only: exp_add)
  have l: "score_row (today + d) ((c, a), f, ls)
       = (score_row today ((c, a), f, ls))
           \<lparr>implicit_score := implicit_score (score_row today ((c, a), f, ls)) * exp (- real_of_int d / 30)\<rparr>"
    unfolding v
    by (simp only: score_row_def half_life_days_def Let_def prod.case e) simp
  from m v l show ?thesis by blast
qed

end
